theory Spec2Isabelle
  imports Complex_Main "HOL-Library.AList"
begin

section \<open>Python values shared by the hooks and the losses\<close>

text \<open>
  Exceptions are values. \<open>StopTraining\<close> is the class declared at the end of
  \<^verbatim>\<open>padertorch/train/hooks.py\<close>; the others are the built-in exception classes the
  modelled code raises (\<^verbatim>\<open>raise ValueError(...)\<close>, a failing \<^verbatim>\<open>assert\<close>) or that the
  tensor library raises on malformed input.
\<close>

datatype error =
    ValueError string
  | AssertionError
  | StopTraining
  | IndexError
  | RuntimeError

text \<open>Decimal rendering of integers, as an f-string does for \<^verbatim>\<open>{trainer.epoch}\<close>.\<close>

definition digit :: "nat \<Rightarrow> char" where
  "digit d = char_of (48 + d)"

fun str_nat :: "nat \<Rightarrow> string" where
  "str_nat n = (if n < 10 then [digit n] else str_nat (n div 10) @ [digit (n mod 10)])"

declare str_nat.simps [simp del]

definition str_int :: "int \<Rightarrow> string" where
  "str_int i = (if i < 0 then ''-'' @ str_nat (nat (- i)) else str_nat (nat i))"

section \<open>Triggers\<close>

text \<open>
  Modelled from the spec: \<^verbatim>\<open>padertorch/train/trigger.py\<close> (IntervalTrigger, EndTrigger,
  OrTrigger) is imported by the hooks but is not among the source files. The model follows
  section 4.1 of the specification: an interval trigger in iterations fires iff the
  iteration is a multiple of the period; one in epochs fires iff the epoch is a multiple of
  the period and the call is the first one observed at that epoch (the last observed epoch
  is the trigger's only state); an end trigger fires iff the counter of its unit has
  reached the maximum; an or-trigger calls every child and fires iff one of them does.
\<close>

datatype tunit = Iteration | Epoch

datatype trigger =
    IntervalTrigger int tunit "int option"
  | EndTrigger int tunit
  | OrTrigger "trigger list"

fun trigger_call :: "trigger \<Rightarrow> int \<Rightarrow> int \<Rightarrow> bool \<times> trigger" where
  "trigger_call (IntervalTrigger period Iteration seen) iteration epoch =
     (iteration mod period = 0, IntervalTrigger period Iteration seen)"
| "trigger_call (IntervalTrigger period Epoch seen) iteration epoch =
     (epoch mod period = 0 \<and> seen \<noteq> Some epoch, IntervalTrigger period Epoch (Some epoch))"
| "trigger_call (EndTrigger maximum Iteration) iteration epoch =
     (maximum \<le> iteration, EndTrigger maximum Iteration)"
| "trigger_call (EndTrigger maximum Epoch) iteration epoch =
     (maximum \<le> epoch, EndTrigger maximum Epoch)"
| "trigger_call (OrTrigger children) iteration epoch =
     (let rs = map (\<lambda>c. trigger_call c iteration epoch) children
      in (list_ex fst rs, OrTrigger (map snd rs)))"

section \<open>The trainer as the hooks see it\<close>

text \<open>
  Modelled from the spec: the Timer class is not among the source files. Section 3 of the
  specification describes it as a mapping from metric name to the ordered sequence of
  samples accumulated since the last reset. The hooks read it through \<^verbatim>\<open>timer.timings\<close>
  and \<^verbatim>\<open>timer.as_dict\<close>; both are the same association list here, in insertion order.
\<close>

record Timer =
  timings :: "(string \<times> real list) list"

definition as_dict :: "Timer \<Rightarrow> (string \<times> real list) list" where
  "as_dict t = timings t"

text \<open>
  The fields of \<^verbatim>\<open>pt.Trainer\<close> that \<^verbatim>\<open>hooks.py\<close> reads. The trainer's methods
  \<^verbatim>\<open>reset_timer\<close> and \<^verbatim>\<open>validate\<close> are not among the source files: the hooks below take
  them as parameters.
\<close>

record Trainer =
  iteration :: int
  epoch :: int
  timer :: Timer
  trainer_storage_dir :: string

text \<open>
  Modelled from the spec: \<^verbatim>\<open>Trainer.reset_timer\<close>, "reset clears all sequences"
  (section 4.2). It instantiates the \<open>reset_timer\<close> parameter of the hooks.
\<close>

definition Trainer_reset_timer :: "Trainer \<Rightarrow> Trainer" where
  "Trainer_reset_timer tr = tr\<lparr>timer := \<lparr>timings = []\<rparr>\<rparr>"

section \<open>StopTrainingHook\<close>

text \<open>
  \<^verbatim>\<open>StopTrainingHook.__init__\<close> stores \<^verbatim>\<open>EndTrigger.new(trigger)\<close>; the hook has no other
  field. \<^verbatim>\<open>pre_step\<close> calls the trigger with the trainer's counters; when it fires it
  prints one line and raises \<^verbatim>\<open>StopTraining\<close>. Every hook method returns its outcome
  (the exception raised, or the objects it mutated) paired with the lines printed so far.
\<close>

record StopTrainingHook =
  stop_trigger :: trigger

definition StopTrainingHook_new :: "int \<times> tunit \<Rightarrow> StopTrainingHook" where
  "StopTrainingHook_new spec = \<lparr>stop_trigger = EndTrigger (fst spec) (snd spec)\<rparr>"

definition StopTrainingHook_pre_step ::
  "StopTrainingHook \<Rightarrow> Trainer \<Rightarrow> string list \<Rightarrow> (error + StopTrainingHook) \<times> string list" where
  "StopTrainingHook_pre_step self trainer out =
     (let (fired, trg) = trigger_call (stop_trigger self) (iteration trainer) (epoch trainer)
      in if fired
         then (Inl StopTraining,
               out @ [''Training ended after '' @ str_int (epoch trainer) @ '' epochs and''
                      @ '' '' @ str_int (iteration trainer) @ '' iterations''])
         else (Inr (self\<lparr>stop_trigger := trg\<rparr>), out))"

section \<open>SummaryHook\<close>

text \<open>
  Numbers are real numbers; what numpy returns where a real quotient does not exist (the
  mean of an empty array, a division by zero) is a value of its own.
\<close>

datatype npfloat = Fin real | PosInf | NegInf | NaN

definition np_mean :: "real list \<Rightarrow> npfloat" where
  "np_mean xs = (if xs = [] then NaN else Fin (sum_list xs / real (length xs)))"

definition np_divide :: "real \<Rightarrow> real \<Rightarrow> npfloat" where
  "np_divide a b =
     (if b \<noteq> 0 then Fin (a / b)
      else if 0 < a then PosInf else if a < 0 then NegInf else NaN)"

text \<open>
  An audio entry of a review is either a tuple or list (waveform and sample rate are its
  two elements) or a bare waveform.
\<close>

datatype pyobj = Arr "real list" | Num int

datatype audio = AudioSeq "pyobj list" | AudioArr "real list"

text \<open>
  A review is a dict with the optional keys losses, scalars, histograms, audios, images;
  \<^verbatim>\<open>review.get(key, dict())\<close> reads an absent key as the empty dict. Dicts are association
  lists in insertion order.
\<close>

record review =
  review_losses :: "(string \<times> real) list"
  review_scalars :: "(string \<times> real) list"
  review_histograms :: "(string \<times> real list) list"
  review_audios :: "(string \<times> audio) list"
  review_images :: "(string \<times> real list) list"

record summary =
  losses :: "(string \<times> real list) list"
  scalars :: "(string \<times> real list) list"
  histograms :: "(string \<times> real list) list"
  audios :: "(string \<times> audio) list"
  images :: "(string \<times> real list) list"

text \<open>The calls made on the tensorboard writer, in order.\<close>

datatype event =
    add_scalar string npfloat int
  | add_histogram string "real list" int
  | add_audio string pyobj int pyobj
  | add_image string "real list" int

record SummaryHook =
  trigger :: trigger
  summary :: summary
  summary_prefix :: string
  storage_dir :: "string option"
  writer :: "event list"

definition IntervalTrigger_new :: "int \<times> tunit \<Rightarrow> trigger" where
  "IntervalTrigger_new spec = IntervalTrigger (fst spec) (snd spec) None"

definition empty_summary_dict :: summary where
  "empty_summary_dict = \<lparr>losses = [], scalars = [], histograms = [], audios = [], images = []\<rparr>"

definition reset_summary :: "'a SummaryHook_scheme \<Rightarrow> 'a SummaryHook_scheme" where
  "reset_summary self = self\<lparr>summary := empty_summary_dict\<rparr>"

definition SummaryHook_new :: "int \<times> tunit \<Rightarrow> (int \<times> tunit) option \<Rightarrow> string \<Rightarrow> SummaryHook" where
  "SummaryHook_new trg validate prefix =
     \<lparr>trigger = (case validate of
                   None \<Rightarrow> IntervalTrigger_new trg
                 | Some v \<Rightarrow> OrTrigger [IntervalTrigger_new trg, IntervalTrigger_new v]),
      summary = empty_summary_dict,
      summary_prefix = prefix,
      storage_dir = None,
      writer = []\<rparr>"

text \<open>\<^verbatim>\<open>d[key].append(v)\<close> on a \<^verbatim>\<open>defaultdict(list)\<close>.\<close>

definition append_item :: "string \<Rightarrow> 'v \<Rightarrow> (string \<times> 'v list) list \<Rightarrow> (string \<times> 'v list) list" where
  "append_item key v d =
     AList.update key ((case map_of d key of None \<Rightarrow> [] | Some vs \<Rightarrow> vs) @ [v]) d"

text \<open>The histogram buffer: concatenate, then keep the last 10000 values.\<close>

definition extend_histogram ::
  "string \<Rightarrow> real list \<Rightarrow> (string \<times> real list) list \<Rightarrow> (string \<times> real list) list" where
  "extend_histogram key histogram d =
     (let joined = (case map_of d key of None \<Rightarrow> [] | Some old \<Rightarrow> old) @ histogram
      in AList.update key (drop (length joined - 10000) joined) d)"

definition update_summary :: "'a SummaryHook_scheme \<Rightarrow> review \<Rightarrow> 'a SummaryHook_scheme" where
  "update_summary self rv =
     self\<lparr>summary :=
       \<lparr>losses = fold (\<lambda>(key, loss). append_item key loss) (review_losses rv)
                    (losses (summary self)),
        scalars = fold (\<lambda>(key, scalar). append_item key scalar) (review_scalars rv)
                    (scalars (summary self)),
        histograms = fold (\<lambda>(key, histogram). extend_histogram key histogram)
                    (review_histograms rv) (histograms (summary self)),
        audios = fold (\<lambda>(key, a). AList.update key a) (review_audios rv)
                    (audios (summary self)),
        images = fold (\<lambda>(key, image). AList.update key image) (review_images rv)
                    (images (summary self))\<rparr>\<rparr>"

text \<open>
  The body of the loop over \<^verbatim>\<open>timer.as_dict.items()\<close> in \<^verbatim>\<open>dump_summary\<close>: the lines
  it prints and the scalar it writes.
\<close>

definition timing_bug_warning :: "real list \<Rightarrow> real list \<Rightarrow> string" where
  "timing_bug_warning time_per_step scalar =
     ''Warning: padertorch.Trainer timing bug.''
     @ ''len(time_per_step) == '' @ str_nat (length time_per_step) @ '' ''
     @ ''!= len(scalar) == '' @ str_nat (length scalar)"

definition dump_timer_item ::
  "string \<Rightarrow> int \<Rightarrow> (string \<times> real list) list \<Rightarrow> string \<times> real list \<Rightarrow> string list \<times> event" where
  "dump_timer_item prefix it d item =
     (let key = fst item; scalar = snd item in
      if key = ''time_per_data_loading'' \<or> key = ''time_per_train_step'' then
        (case map_of d ''time_per_step'' of
           Some time_per_step \<Rightarrow>
             (if length time_per_step \<noteq> length scalar
              then [timing_bug_warning time_per_step scalar] else [],
              add_scalar
                (prefix @ ''/'' @ (if key = ''time_per_data_loading''
                                   then ''time_rel_data_loading'' else ''time_rel_train_step''))
                (np_divide (sum_list scalar) (sum_list time_per_step)) it)
         | None \<Rightarrow> ([], add_scalar (prefix @ ''/'' @ key) (np_mean scalar) it))
      else ([], add_scalar (prefix @ ''/'' @ key) (np_mean scalar) it))"

text \<open>The loop over the audio snapshots; the \<^verbatim>\<open>assert len(audio) == 2\<close> can fail.\<close>

fun dump_audios :: "string \<Rightarrow> int \<Rightarrow> (string \<times> audio) list \<Rightarrow> error + event list" where
  "dump_audios prefix it [] = Inr []"
| "dump_audios prefix it ((key, AudioSeq xs) # rest) =
     (if length xs \<noteq> 2 then Inl AssertionError
      else (case dump_audios prefix it rest of
              Inl e \<Rightarrow> Inl e
            | Inr evs \<Rightarrow> Inr (add_audio (prefix @ ''/'' @ key) (xs ! 0) it (xs ! 1) # evs)))"
| "dump_audios prefix it ((key, AudioArr a) # rest) =
     (case dump_audios prefix it rest of
        Inl e \<Rightarrow> Inl e
      | Inr evs \<Rightarrow> Inr (add_audio (prefix @ ''/'' @ key) (Arr a) it (Num 16000) # evs))"

text \<open>
  \<^verbatim>\<open>dump_summary\<close>. The writes before the audio loop and the lines printed by the timer
  loop happen before an assertion of the audio loop can fail; the exception leaves the
  printed lines, and the objects are not looked at again.
\<close>

definition dump_summary ::
  "(Trainer \<Rightarrow> Trainer) \<Rightarrow> 'a SummaryHook_scheme \<Rightarrow> Trainer \<Rightarrow> string list
    \<Rightarrow> (error + 'a SummaryHook_scheme \<times> Trainer) \<times> string list" where
  "dump_summary reset_timer self trainer out =
     (let it = iteration trainer;
          prefix = summary_prefix self;
          s = summary self;
          d = as_dict (timer trainer);
          timed = map (dump_timer_item prefix it d) d;
          out' = out @ concat (map fst timed);
          evs = map (\<lambda>(key, loss). add_scalar (prefix @ ''/'' @ key) (np_mean loss) it) (losses s)
              @ map (\<lambda>(key, scalar). add_scalar (prefix @ ''/'' @ key) (np_mean scalar) it) (scalars s)
              @ map snd timed
              @ map (\<lambda>(key, histogram). add_histogram (prefix @ ''/'' @ key) histogram it) (histograms s)
      in case dump_audios prefix it (audios s) of
           Inl e \<Rightarrow> (Inl e, out')
         | Inr aevs \<Rightarrow>
             (Inr (reset_summary
                     (self\<lparr>writer := writer self @ evs @ aevs
                          @ map (\<lambda>(key, image). add_image (prefix @ ''/'' @ key) image it) (images s)\<rparr>),
                   reset_timer trainer),
              out'))"

definition SummaryHook_pre_step ::
  "(Trainer \<Rightarrow> Trainer) \<Rightarrow> 'a SummaryHook_scheme \<Rightarrow> Trainer \<Rightarrow> string list
    \<Rightarrow> (error + 'a SummaryHook_scheme \<times> Trainer) \<times> string list" where
  "SummaryHook_pre_step reset_timer self trainer out =
     (let (fired, trg) = trigger_call (trigger self) (iteration trainer) (epoch trainer);
          self' = self\<lparr>trigger := trg\<rparr>
      in if fired \<or> iteration trainer = 1
         then dump_summary reset_timer self' trainer out
         else (Inr (self', trainer), out))"

definition SummaryHook_post_step ::
  "'a SummaryHook_scheme \<Rightarrow> Trainer \<Rightarrow> review \<Rightarrow> error + 'a SummaryHook_scheme" where
  "SummaryHook_post_step self trainer rv =
     (case storage_dir self of
        None \<Rightarrow> Inr (update_summary (self\<lparr>storage_dir := Some (trainer_storage_dir trainer)\<rparr>) rv)
      | Some dir \<Rightarrow>
          if dir = trainer_storage_dir trainer then Inr (update_summary self rv)
          else Inl AssertionError)"

definition SummaryHook_close ::
  "(Trainer \<Rightarrow> Trainer) \<Rightarrow> 'a SummaryHook_scheme \<Rightarrow> Trainer \<Rightarrow> string list
    \<Rightarrow> (error + 'a SummaryHook_scheme \<times> Trainer) \<times> string list" where
  "SummaryHook_close reset_timer self trainer out = dump_summary reset_timer self trainer out"

section \<open>ValidationHook\<close>

text \<open>
  \<^verbatim>\<open>ValidationHook\<close> extends \<^verbatim>\<open>SummaryHook\<close> by the validation iterator; its constructor
  fixes the prefix. \<^verbatim>\<open>trainer.validate(self.iterator)\<close> is a parameter: it returns the
  reviews of the pass and the trainer as the pass left it.
\<close>

record 'it ValidationHook = SummaryHook +
  iterator :: 'it

definition ValidationHook_new :: "int \<times> tunit \<Rightarrow> 'it \<Rightarrow> 'it ValidationHook" where
  "ValidationHook_new trg it =
     SummaryHook.extend (SummaryHook_new trg None ''validation'')
       (ValidationHook.fields it)"

definition ValidationHook_pre_step ::
  "(Trainer \<Rightarrow> 'it \<Rightarrow> review list \<times> Trainer) \<Rightarrow> (Trainer \<Rightarrow> Trainer)
    \<Rightarrow> 'it ValidationHook \<Rightarrow> Trainer \<Rightarrow> string list
    \<Rightarrow> (error + 'it ValidationHook \<times> Trainer) \<times> string list" where
  "ValidationHook_pre_step validate reset_timer self trainer out =
     (let (fired, trg) = trigger_call (trigger self) (iteration trainer) (epoch trainer);
          self1 = self\<lparr>trigger := trg\<rparr>
      in if fired then
           if length (timings (timer trainer)) \<noteq> 0 then (Inl AssertionError, out)
           else
             let out1 = out @ [''Starting Validation''];
                 (evaluation, trainer1) = validate trainer (iterator self1);
                 self2 = fold (\<lambda>rv h. update_summary h rv) evaluation self1
             in case dump_summary reset_timer self2 trainer1 out1 of
                  (Inl e, out2) \<Rightarrow> (Inl e, out2)
                | (Inr (self3, trainer2), out2) \<Rightarrow>
                    if length (timings (timer trainer2)) \<noteq> 0 then (Inl AssertionError, out2)
                    else (Inr (self3, trainer2), out2 @ [''Finished Validation''])
         else (Inr (self1, trainer), out))"

section \<open>Tensors and the arguments of the losses\<close>

text \<open>
  A tensor is its shape and its elements in row-major order, as a contiguous tensor lies
  in memory; \<^verbatim>\<open>view\<close> and \<^verbatim>\<open>reshape\<close> keep the elements and change the shape. Rounding
  is not modelled: the elements are real numbers where only finite values are combined,
  and values of \<open>npfloat\<close> where a result or an element may be infinite or not a
  number. A tensor is well formed when it has as many elements as its shape says.
\<close>

record 'a tensor =
  shape :: "nat list"
  data :: "'a list"

definition wf_tensor :: "'a tensor \<Rightarrow> bool" where
  "wf_tensor x \<longleftrightarrow> length (data x) = prod_list (shape x)"

text \<open>
  What the losses are called with: a tensor, a \<^verbatim>\<open>PackedSequence\<close> (its data tensor and
  its batch sizes), or an object of another class, of which only the class name matters.
\<close>

datatype 'a arg =
    Tensor "'a tensor"
  | PackedSequence "'a tensor" "nat list"
  | Object string

text \<open>\<^verbatim>\<open>{type(x)}\<close> in an f-string.\<close>

fun type_repr :: "'a arg \<Rightarrow> string" where
  "type_repr (Tensor x) = ''<class 'torch.Tensor'>''"
| "type_repr (PackedSequence x bs) = ''<class 'torch.nn.utils.rnn.PackedSequence'>''"
| "type_repr (Object cls) = ''<class '' @ [CHR 0x27] @ cls @ [CHR 0x27] @ ''>''"

definition incompatible_types :: "'a arg \<Rightarrow> 'b arg \<Rightarrow> error" where
  "incompatible_types x t = ValueError (''Incompatible types: '' @ type_repr x @ '', '' @ type_repr t)"

section \<open>softmax_cross_entropy\<close>

definition IGNORE_INDEX :: int where
  "IGNORE_INDEX = - 1"

text \<open>
  Modelled from the spec: \<^verbatim>\<open>move_axis\<close> (padertorch/ops/tensor.py) is not among the
  source files. The only call is \<^verbatim>\<open>move_axis(x, -1, 1)\<close>: the last axis (the classes,
  section 4.6) becomes axis 1. For a shape (N, d1, .., dk, K) with M = d1 * .. * dk the
  element at (n, j, k) moves to (n, k, j). The only axis of a tensor of shape (K) stays
  where it is; a tensor without axes has no last axis.
\<close>

definition move_axis_last_to_1 :: "'a tensor \<Rightarrow> error + 'a tensor" where
  "move_axis_last_to_1 x =
     (case shape x of
        [] \<Rightarrow> Inl IndexError
      | [K] \<Rightarrow> Inr x
      | N # rest \<Rightarrow>
          let K = last rest; M = prod_list (butlast rest)
          in Inr \<lparr>shape = N # K # butlast rest,
                  data = concat (map (\<lambda>n. concat (map (\<lambda>k.
                           map (\<lambda>j. data x ! ((n * M + j) * K + k)) [0..<M]) [0..<K])) [0..<N])\<rparr>)"

text \<open>
  \<^verbatim>\<open>torch.nn.CrossEntropyLoss(ignore_index)\<close> with its default mean reduction, as the
  library documents it: the input has shape (N, C, d1, .., dk), the target (N, d1, .., dk);
  a position whose target is \<open>ignore_index\<close> contributes nothing, any other target must
  be a class in [0, C), and the result is the sum of the negative log-softmax values at the
  targets divided by the number of contributing positions (not a number when there is
  none). An input of shape (C) with a target without axes is one position: the library
  treats it as the batch of shape (1, C).
\<close>

definition log_softmax :: "real list \<Rightarrow> nat \<Rightarrow> real" where
  "log_softmax logits c = logits ! c - ln (sum_list (map exp logits))"

definition position_loss :: "int \<Rightarrow> real tensor \<Rightarrow> int tensor \<Rightarrow> nat \<Rightarrow> error + real option" where
  "position_loss ignore_index inp target p =
     (let C = shape inp ! 1; M = prod_list (drop 2 (shape inp)); c = data target ! p in
      if c = ignore_index then Inr None
      else if c < 0 \<or> int C \<le> c then Inl IndexError
      else Inr (Some (- log_softmax
                  (map (\<lambda>k. data inp ! (((p div M) * C + k) * M + p mod M)) [0..<C]) (nat c))))"

fun collect :: "(error + 'a) list \<Rightarrow> error + 'a list" where
  "collect [] = Inr []"
| "collect (Inl e # rs) = Inl e"
| "collect (Inr v # rs) = (case collect rs of Inl e \<Rightarrow> Inl e | Inr vs \<Rightarrow> Inr (v # vs))"

definition mean_of_kept :: "real option list \<Rightarrow> npfloat" where
  "mean_of_kept terms =
     (let kept = List.map_filter id terms
      in if kept = [] then NaN else Fin (sum_list kept / real (length kept)))"

definition cross_entropy_positions ::
  "int \<Rightarrow> real tensor \<Rightarrow> int tensor \<Rightarrow> nat \<Rightarrow> error + npfloat" where
  "cross_entropy_positions ignore_index inp target n =
     (case collect (map (position_loss ignore_index inp target) [0..<n]) of
        Inl e \<Rightarrow> Inl e
      | Inr terms \<Rightarrow> Inr (mean_of_kept terms))"

definition CrossEntropyLoss :: "int \<Rightarrow> real tensor \<Rightarrow> int tensor \<Rightarrow> error + npfloat" where
  "CrossEntropyLoss ignore_index inp target =
     (case shape inp of
        [] \<Rightarrow> Inl (ValueError ''Expected 1 or more dimensions'')
      | [C] \<Rightarrow>
          if shape target \<noteq> [] then Inl (ValueError ''Expected target size'')
          else cross_entropy_positions ignore_index \<lparr>shape = [1, C], data = data inp\<rparr> target 1
      | N # C # rest \<Rightarrow>
          if shape target \<noteq> N # rest then Inl (ValueError ''Expected target size'')
          else cross_entropy_positions ignore_index inp target (prod_list (N # rest)))"

text \<open>
  \<^verbatim>\<open>softmax_cross_entropy\<close>: two tensors are taken as they are, two packed sequences are
  replaced by their data tensors, anything else is a ValueError; then the assertion on the
  sizes and the library's loss on the moved axis.
\<close>

definition cross_entropy_of_tensors :: "real tensor \<Rightarrow> int tensor \<Rightarrow> error + npfloat" where
  "cross_entropy_of_tensors x t =
     (if butlast (shape x) \<noteq> shape t then Inl AssertionError
      else (case move_axis_last_to_1 x of
              Inl e \<Rightarrow> Inl e
            | Inr moved \<Rightarrow> CrossEntropyLoss IGNORE_INDEX moved t))"

fun softmax_cross_entropy :: "real arg \<Rightarrow> int arg \<Rightarrow> error + npfloat" where
  "softmax_cross_entropy (Tensor x) (Tensor t) = cross_entropy_of_tensors x t"
| "softmax_cross_entropy (PackedSequence x bx) (PackedSequence t bt) = cross_entropy_of_tensors x t"
| "softmax_cross_entropy x t = Inl (incompatible_types x t)"

section \<open>deep_clustering_loss\<close>

text \<open>
  Modelled from the spec: \<^verbatim>\<open>einsum\<close> (padertorch/ops/einsum.py) is not among the source
  files. The three calls 'ne,nE->eE', 'ne,nK->eK' and 'nk,nK->kK' are the same contraction
  of two matrices over their shared first axis, the products X^T X, X^T T and T^T T of
  section 4.6; operands that are not matrices with the same number of rows are an error.
\<close>

definition einsum :: "real tensor \<Rightarrow> real tensor \<Rightarrow> error + real tensor" where
  "einsum x y =
     (case (shape x, shape y) of
        ([n, e], [n', e']) \<Rightarrow>
          if n \<noteq> n' then Inl RuntimeError
          else Inr \<lparr>shape = [e, e'],
                    data = concat (map (\<lambda>a. map (\<lambda>b.
                             sum_list (map (\<lambda>i. data x ! (i * e + a) * data y ! (i * e' + b)) [0..<n]))
                             [0..<e']) [0..<e])\<rparr>
      | _ \<Rightarrow> Inl RuntimeError)"

text \<open>\<^verbatim>\<open>torch.sum(m ** 2)\<close>.\<close>

definition sum_of_squares :: "real tensor \<Rightarrow> real" where
  "sum_of_squares m = sum_list (map (\<lambda>v. v ^ 2) (data m))"

text \<open>
  \<^verbatim>\<open>s // d\<close> for a float scalar tensor and a Python int: the quotient rounded down to an
  integer (versions of the library that round toward zero agree wherever the quotient is
  not negative); a zero divisor gives no finite value.
\<close>

definition floor_divide :: "real \<Rightarrow> real \<Rightarrow> npfloat" where
  "floor_divide s d =
     (if d \<noteq> 0 then Fin (of_int \<lfloor>s / d\<rfloor>)
      else if 0 < s then PosInf else if s < 0 then NegInf else NaN)"

definition clustering_loss_of_tensors :: "real tensor \<Rightarrow> real tensor \<Rightarrow> error + npfloat" where
  "clustering_loss_of_tensors x t =
     (case shape x of
        [] \<Rightarrow> Inl IndexError
      | N # _ \<Rightarrow>
          (case einsum x x of Inl e \<Rightarrow> Inl e | Inr xx \<Rightarrow>
           case einsum x t of Inl e \<Rightarrow> Inl e | Inr xt \<Rightarrow>
           case einsum t t of Inl e \<Rightarrow> Inl e | Inr tt \<Rightarrow>
             Inr (floor_divide
                    (sum_of_squares xx - 2 * sum_of_squares xt + sum_of_squares tt)
                    (real (N ^ 2)))))"

text \<open>
  \<^verbatim>\<open>deep_clustering_loss\<close>. The branch for two packed sequences pads them with the
  library's \<^verbatim>\<open>pad_packed_sequence\<close> and averages the loss of each batch element; it is the
  parameter \<open>packed\<close> here, and nothing below depends on it.
\<close>

fun deep_clustering_loss ::
  "(real tensor \<Rightarrow> nat list \<Rightarrow> real tensor \<Rightarrow> nat list \<Rightarrow> error + npfloat)
    \<Rightarrow> real arg \<Rightarrow> real arg \<Rightarrow> error + npfloat" where
  "deep_clustering_loss packed (Tensor x) (Tensor t) = clustering_loss_of_tensors x t"
| "deep_clustering_loss packed (PackedSequence x bx) (PackedSequence t bt) = packed x bx t bt"
| "deep_clustering_loss packed x t = Inl (incompatible_types x t)"

text \<open>
  The loss as section 4.6 of the specification words it: the combination of squared
  Frobenius norms of X^T X, X^T T and T^T T, divided by N squared. The matrices are read
  as lists of rows.
\<close>

definition rows :: "'a tensor \<Rightarrow> 'a list list" where
  "rows m = map (\<lambda>i. take (shape m ! 1) (drop (i * shape m ! 1) (data m))) [0..<shape m ! 0]"

definition transposed_product :: "real list list \<Rightarrow> real list list \<Rightarrow> nat \<Rightarrow> nat \<Rightarrow> real" where
  "transposed_product X Y a b = (\<Sum>i < length X. X ! i ! a * Y ! i ! b)"

definition frobenius_sq :: "nat \<Rightarrow> nat \<Rightarrow> (nat \<Rightarrow> nat \<Rightarrow> real) \<Rightarrow> real" where
  "frobenius_sq m n A = (\<Sum>a < m. \<Sum>b < n. (A a b) ^ 2)"

definition deep_clustering_spec :: "real tensor \<Rightarrow> real tensor \<Rightarrow> real" where
  "deep_clustering_spec x t =
     (let X = rows x; T = rows t; N = shape x ! 0; E = shape x ! 1; K = shape t ! 1
      in (frobenius_sq E E (transposed_product X X)
          - 2 * frobenius_sq E K (transposed_product X T)
          + frobenius_sq K K (transposed_product T T)) / real (N ^ 2))"

section \<open>pit_mse_loss\<close>

text \<open>
  \<^verbatim>\<open>target[:, permutation, :]\<close>: indexing with three terms needs at least three axes, and
  every index of the permutation must exist on axis 1. With M the number of elements
  behind one index pair (t, k), the result lists, for each t, the blocks of the chosen
  sources in the order of the permutation.
\<close>

definition index_axis_1 :: "'a tensor \<Rightarrow> nat list \<Rightarrow> error + 'a tensor" where
  "index_axis_1 x perm =
     (case shape x of
        T # K # F # rest \<Rightarrow>
          if \<exists>p \<in> set perm. K \<le> p then Inl IndexError
          else let M = prod_list (F # rest)
               in Inr \<lparr>shape = T # length perm # F # rest,
                       data = concat (map (\<lambda>t. concat (map (\<lambda>p.
                                take M (drop ((t * K + p) * M) (data x))) perm)) [0..<T])\<rparr>
      | _ \<Rightarrow> Inl IndexError)"

text \<open>
  The elements of the tensors of this loss are floating point numbers that may be
  infinite or not a number; rounding is not modelled. Subtraction, squaring and addition
  follow the arithmetic of such numbers: a difference of equal infinities and a sum of
  opposite infinities are not numbers, and whatever is computed from not a number is not
  a number.
\<close>

fun fsub :: "npfloat \<Rightarrow> npfloat \<Rightarrow> npfloat" where
  "fsub NaN b = NaN"
| "fsub a NaN = NaN"
| "fsub (Fin u) (Fin v) = Fin (u - v)"
| "fsub (Fin u) PosInf = NegInf"
| "fsub (Fin u) NegInf = PosInf"
| "fsub PosInf PosInf = NaN"
| "fsub PosInf b = PosInf"
| "fsub NegInf NegInf = NaN"
| "fsub NegInf b = NegInf"

fun fsquare :: "npfloat \<Rightarrow> npfloat" where
  "fsquare NaN = NaN"
| "fsquare (Fin u) = Fin (u ^ 2)"
| "fsquare a = PosInf"

fun fadd :: "npfloat \<Rightarrow> npfloat \<Rightarrow> npfloat" where
  "fadd NaN b = NaN"
| "fadd a NaN = NaN"
| "fadd (Fin u) (Fin v) = Fin (u + v)"
| "fadd (Fin u) b = b"
| "fadd a (Fin v) = a"
| "fadd PosInf PosInf = PosInf"
| "fadd NegInf NegInf = NegInf"
| "fadd a b = NaN"

definition fsum :: "npfloat list \<Rightarrow> npfloat" where
  "fsum xs = foldr fadd xs (Fin 0)"

text \<open>The mean reduction: the sum divided by the number of elements.\<close>

definition fmean :: "npfloat list \<Rightarrow> npfloat" where
  "fmean xs =
     (if xs = [] then NaN
      else (case fsum xs of Fin s \<Rightarrow> Fin (s / real (length xs)) | other \<Rightarrow> other))"

fun finite_value :: "npfloat \<Rightarrow> bool" where
  "finite_value (Fin u) = True"
| "finite_value a = False"

text \<open>
  \<^verbatim>\<open>torch.nn.functional.mse_loss\<close> with its mean reduction, on operands of one shape (the
  operands that reach it with different shapes here cannot be broadcast); the mean of no
  elements is not a number.
\<close>

definition mse_loss :: "npfloat tensor \<Rightarrow> npfloat tensor \<Rightarrow> error + npfloat" where
  "mse_loss a b =
     (if shape a \<noteq> shape b then Inl RuntimeError
      else Inr (fmean (map2 (\<lambda>u v. fsquare (fsub u v)) (data a) (data b))))"

text \<open>\<^verbatim>\<open>torch.min\<close> of the stacked candidates; a candidate that is not a number wins.\<close>

fun fmin :: "npfloat \<Rightarrow> npfloat \<Rightarrow> npfloat" where
  "fmin NaN b = NaN"
| "fmin a NaN = NaN"
| "fmin NegInf b = NegInf"
| "fmin a NegInf = NegInf"
| "fmin PosInf b = b"
| "fmin a PosInf = a"
| "fmin (Fin a) (Fin b) = Fin (min a b)"

fun torch_min :: "npfloat list \<Rightarrow> error + npfloat" where
  "torch_min [] = Inl RuntimeError"
| "torch_min (c # cs) = Inr (foldl fmin c cs)"

text \<open>\<^verbatim>\<open>itertools.permutations(range(sources))\<close> for \<^verbatim>\<open>sources = 2\<close>.\<close>

definition permutations_of_sources :: "nat list list" where
  "permutations_of_sources = [[0, 1], [1, 0]]"

fun candidates :: "npfloat tensor \<Rightarrow> npfloat tensor \<Rightarrow> nat list list \<Rightarrow> error + npfloat list" where
  "candidates estimate target [] = Inr []"
| "candidates estimate target (permutation # perms) =
     (case index_axis_1 target permutation of
        Inl e \<Rightarrow> Inl e
      | Inr permuted \<Rightarrow>
          (case mse_loss estimate permuted of
             Inl e \<Rightarrow> Inl e
           | Inr c \<Rightarrow>
               (case candidates estimate target perms of
                  Inl e \<Rightarrow> Inl e
                | Inr cs \<Rightarrow> Inr (c # cs))))"

definition pit_mse_loss :: "npfloat tensor \<Rightarrow> npfloat tensor \<Rightarrow> error + npfloat" where
  "pit_mse_loss estimate target =
     (if shape estimate \<noteq> shape target then Inl AssertionError
      else (case candidates estimate target permutations_of_sources of
              Inl e \<Rightarrow> Inl e
            | Inr cs \<Rightarrow> torch_min cs))"

text \<open>
  The loss in the words of the specification, for tensors of shape (T, 2, F): the element
  of a tensor at (t, k, f); the mean squared error between the estimate and the target
  whose sources are assigned by a permutation, over all (t, k, f); the smaller of the two
  errors. \<open>swap_sources\<close> is a tensor with its two sources exchanged.
\<close>

definition at3 :: "'a tensor \<Rightarrow> nat \<Rightarrow> nat \<Rightarrow> nat \<Rightarrow> 'a" where
  "at3 x t k f = data x ! ((t * (shape x ! 1) + k) * (shape x ! 2) + f)"

definition elements3 :: "nat \<Rightarrow> nat \<Rightarrow> (nat \<Rightarrow> nat \<Rightarrow> nat \<Rightarrow> 'a) \<Rightarrow> 'a list" where
  "elements3 T F g =
     concat (map (\<lambda>t. concat (map (\<lambda>k. map (\<lambda>f. g t k f) [0..<F]) [0..<2])) [0..<T])"

definition mse_under :: "(nat \<Rightarrow> nat) \<Rightarrow> npfloat tensor \<Rightarrow> npfloat tensor \<Rightarrow> npfloat" where
  "mse_under perm estimate target =
     fmean (elements3 (shape estimate ! 0) (shape estimate ! 2)
              (\<lambda>t k f. fsquare (fsub (at3 estimate t k f) (at3 target t (perm k) f))))"

definition pit_mse_spec :: "npfloat tensor \<Rightarrow> npfloat tensor \<Rightarrow> npfloat" where
  "pit_mse_spec estimate target =
     fmin (mse_under (\<lambda>k. k) estimate target) (mse_under (\<lambda>k. 1 - k) estimate target)"

definition swap_sources :: "'a tensor \<Rightarrow> 'a tensor" where
  "swap_sources x =
     \<lparr>shape = shape x,
      data = elements3 (shape x ! 0) (shape x ! 2) (\<lambda>t k f. at3 x t (1 - k) f)\<rparr>"

text \<open>
  A tensor of shape (0, 2, 1), a sequence of no frames, and one frame whose first source
  is infinite.
\<close>

definition no_frames :: "npfloat tensor" where
  "no_frames = \<lparr>shape = [0, 2, 1], data = []\<rparr>"

definition infinite_source :: "npfloat tensor" where
  "infinite_source = \<lparr>shape = [1, 2, 1], data = [PosInf, Fin 0]\<rparr>"

section \<open>Inputs of the scenarios\<close>

text \<open>A review whose only entry is one loss, as in \<^verbatim>\<open>{'losses': {'a': 1.0}}\<close>.\<close>

definition losses_review :: "string \<Rightarrow> real \<Rightarrow> review" where
  "losses_review key v = \<lparr>review_losses = [(key, v)], review_scalars = [],
     review_histograms = [], review_audios = [], review_images = []\<rparr>"

text \<open>
  A validation pass for the scenarios: two reviews, and one timer sample recorded during
  the pass.
\<close>

definition one_pass :: "Trainer \<Rightarrow> unit \<Rightarrow> review list \<times> Trainer" where
  "one_pass trainer it =
     ([losses_review ''loss'' 4, losses_review ''loss'' 6],
      trainer\<lparr>timer := \<lparr>timings = [(''time_per_step'', [1])]\<rparr>\<rparr>)"



text \<open>Both arguments tensors, or both packed sequences.\<close>

fun same_kind :: "'a arg \<Rightarrow> 'b arg \<Rightarrow> bool" where
  "same_kind (Tensor x) (Tensor t) = True"
| "same_kind (PackedSequence x bx) (PackedSequence t bt) = True"
| "same_kind x t = False"

text \<open>
  Two embeddings of unit norm in one dimension and their one-hot assignment to two
  clusters.
\<close>

definition dc_x :: "real tensor" where
  "dc_x = \<lparr>shape = [2, 1], data = [1, 1]\<rparr>"

definition dc_t :: "real tensor" where
  "dc_t = \<lparr>shape = [2, 2], data = [1, 0, 0, 1]\<rparr>"

text \<open>One frame, one frequency bin, two sources.\<close>

definition two_sources :: "npfloat tensor" where
  "two_sources = \<lparr>shape = [1, 2, 1], data = [Fin 3, Fin 5]\<rparr>"

text \<open>
  The loss in the words of the specification: the logits of position p of the target are
  the p-th block of K elements of x; the cross-entropy there is the negative log-softmax
  at the target class; the result is the mean over the positions whose target is not the
  ignore index.
\<close>

definition logits_at :: "real tensor \<Rightarrow> nat \<Rightarrow> real list" where
  "logits_at x p = take (last (shape x)) (drop (p * last (shape x)) (data x))"

definition cross_entropy_at :: "real tensor \<Rightarrow> int tensor \<Rightarrow> nat \<Rightarrow> real" where
  "cross_entropy_at x t p = - log_softmax (logits_at x p) (nat (data t ! p))"

definition softmax_cross_entropy_spec :: "real tensor \<Rightarrow> int tensor \<Rightarrow> npfloat" where
  "softmax_cross_entropy_spec x t =
     np_mean (map (cross_entropy_at x t)
                (filter (\<lambda>p. data t ! p \<noteq> - 1) [0..<length (data t)]))"

text \<open>
  Two positions with two classes each; the target of the second is the ignore index in
  \<open>ce_t\<close> and the class 0 in \<open>ce_t_counted\<close>. A single position: logits of shape (2)
  with a target without axes.
\<close>

definition ce_x :: "real tensor" where
  "ce_x = \<lparr>shape = [2, 2], data = [0, 0, 0, ln 3]\<rparr>"

definition ce_t :: "int tensor" where
  "ce_t = \<lparr>shape = [2], data = [1, - 1]\<rparr>"

definition ce_t_counted :: "int tensor" where
  "ce_t_counted = \<lparr>shape = [2], data = [1, 0]\<rparr>"

definition ce_single_x :: "real tensor" where
  "ce_single_x = \<lparr>shape = [2], data = [0, 0]\<rparr>"

definition ce_single_t :: "int tensor" where
  "ce_single_t = \<lparr>shape = [], data = [1]\<rparr>"

text \<open>
  A hook whose trigger has a period of 500 iterations and whose summary holds two losses,
  a scalar and an audio snapshot; a trainer at iteration 1 with timer samples.
\<close>

definition first_hook :: SummaryHook where
  "first_hook = (SummaryHook_new (500, Iteration) None ''training'')
     \<lparr>summary := \<lparr>losses = [(''a'', [1, 3])], scalars = [(''lr'', [1 / 2])], histograms = [],
                   audios = [(''wave'', AudioArr [0])], images = []\<rparr>\<rparr>"

definition first_trainer :: Trainer where
  "first_trainer =
     \<lparr>iteration = 1, epoch = 0,
      timer = \<lparr>timings = [(''time_per_step'', [4]), (''time_per_data_loading'', [1, 1])]\<rparr>,
      trainer_storage_dir = ''exp''\<rparr>"

section \<open>Theorems about the hooks\<close>

text \<open>
  C4. For every trainer state, \<open>StopTrainingHook.pre_step\<close> raises \<open>StopTraining\<close>, a
  constructor different from every other exception, if and only if the hook's end trigger
  fires at the trainer's (iteration, epoch); when the trigger does not fire, the call
  returns the hook unchanged and prints nothing.
\<close>

theorem StopTrainingHook_pre_step_iff:
  "(fst (StopTrainingHook_pre_step (StopTrainingHook_new (m, u)) trainer out) = Inl StopTraining
      \<longleftrightarrow> fst (trigger_call (EndTrigger m u) (iteration trainer) (epoch trainer)))
   \<and> (\<not> fst (trigger_call (EndTrigger m u) (iteration trainer) (epoch trainer))
      \<longrightarrow> StopTrainingHook_pre_step (StopTrainingHook_new (m, u)) trainer out
            = (Inr (StopTrainingHook_new (m, u)), out))
   \<and> StopTraining \<noteq> AssertionError \<and> StopTraining \<noteq> IndexError
   \<and> StopTraining \<noteq> RuntimeError \<and> (\<forall>msg. StopTraining \<noteq> ValueError msg)"
  by (cases u) (simp_all add: StopTrainingHook_pre_step_def StopTrainingHook_new_def)

theorem StopTrainingHook_pre_step_witness:
  "\<not> fst (trigger_call (EndTrigger 3 Epoch) 40 2)
   \<and> StopTrainingHook_pre_step (StopTrainingHook_new (3, Epoch))
        \<lparr>iteration = 40, epoch = 2, timer = \<lparr>timings = []\<rparr>, trainer_storage_dir = ''exp''\<rparr> []
      = (Inr (StopTrainingHook_new (3, Epoch)), [])
   \<and> fst (StopTrainingHook_pre_step (StopTrainingHook_new (3, Epoch))
        \<lparr>iteration = 60, epoch = 3, timer = \<lparr>timings = []\<rparr>, trainer_storage_dir = ''exp''\<rparr> [])
      = Inl StopTraining"
  using StopTrainingHook_pre_step_iff [of 3 Epoch
          "\<lparr>iteration = 40, epoch = 2, timer = \<lparr>timings = []\<rparr>, trainer_storage_dir = ''exp''\<rparr>" "[]"]
        StopTrainingHook_pre_step_iff [of 3 Epoch
          "\<lparr>iteration = 60, epoch = 3, timer = \<lparr>timings = []\<rparr>, trainer_storage_dir = ''exp''\<rparr>" "[]"]
  by simp

text \<open>
  What a completed flush leaves: an empty summary, and the trainer as its
  \<^verbatim>\<open>reset_timer\<close> returns it.
\<close>

lemma dump_summary_Inr:
  "fst (dump_summary R self trainer out) = Inr (self', trainer') \<Longrightarrow>
   summary self' = empty_summary_dict \<and> trainer' = R trainer"
  by (auto simp: dump_summary_def Let_def reset_summary_def split: sum.splits)

text \<open>
  C9. When the trainer's iteration counter is 1, \<open>SummaryHook.pre_step\<close> flushes,
  whatever its trigger returned: unless an assertion of the audio loop fails, it writes
  the mean of every loss and scalar series, the timer's scalars, the histograms, the audio
  and image snapshots, all keyed by iteration 1, prints the timer's warnings, leaves the
  summary empty and hands the trainer to \<open>reset_timer\<close>.
\<close>

theorem SummaryHook_pre_step_first_iteration:
  assumes "iteration trainer = 1"
  shows "(\<forall>aevs. dump_audios (summary_prefix self) 1 (audios (summary self)) = Inr aevs \<longrightarrow>
            SummaryHook_pre_step reset_timer self trainer out =
              (Inr (self\<lparr>trigger := snd (trigger_call (trigger self) 1 (epoch trainer)),
                         summary := empty_summary_dict,
                         writer := writer self
                           @ map (\<lambda>(key, loss). add_scalar (summary_prefix self @ ''/'' @ key) (np_mean loss) 1)
                               (losses (summary self))
                           @ map (\<lambda>(key, scalar). add_scalar (summary_prefix self @ ''/'' @ key) (np_mean scalar) 1)
                               (scalars (summary self))
                           @ map (\<lambda>item. snd (dump_timer_item (summary_prefix self) 1
                                                  (as_dict (timer trainer)) item))
                               (as_dict (timer trainer))
                           @ map (\<lambda>(key, histogram). add_histogram (summary_prefix self @ ''/'' @ key) histogram 1)
                               (histograms (summary self))
                           @ aevs
                           @ map (\<lambda>(key, image). add_image (summary_prefix self @ ''/'' @ key) image 1)
                               (images (summary self))\<rparr>,
                    reset_timer trainer),
               out @ concat (map (\<lambda>item. fst (dump_timer_item (summary_prefix self) 1
                                                  (as_dict (timer trainer)) item))
                               (as_dict (timer trainer)))))
       \<and> (\<forall>e. dump_audios (summary_prefix self) 1 (audios (summary self)) = Inl e \<longrightarrow>
            fst (SummaryHook_pre_step reset_timer self trainer out) = Inl e)"
  using assms
  by (simp add: SummaryHook_pre_step_def dump_summary_def reset_summary_def Let_def
      case_prod_beta comp_def)

theorem SummaryHook_pre_step_first_iteration_witness:
  "iteration first_trainer = 1
   \<and> \<not> fst (trigger_call (trigger first_hook) (iteration first_trainer) (epoch first_trainer))
   \<and> dump_audios (summary_prefix first_hook) 1 (audios (summary first_hook))
      = Inr [add_audio ''training/wave'' (Arr [0]) 1 (Num 16000)]
   \<and> SummaryHook_pre_step Trainer_reset_timer first_hook first_trainer []
      = (Inr (first_hook
                \<lparr>summary := empty_summary_dict,
                 writer := [add_scalar ''training/a'' (Fin 2) 1,
                            add_scalar ''training/lr'' (Fin (1 / 2)) 1,
                            add_scalar ''training/time_per_step'' (Fin 4) 1,
                            add_scalar ''training/time_rel_data_loading'' (Fin (1 / 2)) 1,
                            add_audio ''training/wave'' (Arr [0]) 1 (Num 16000)]\<rparr>,
              first_trainer\<lparr>timer := \<lparr>timings = []\<rparr>\<rparr>),
         [timing_bug_warning [4] [1, 1]])"
proof -
  have it: "iteration first_trainer = 1"
    by (simp add: first_trainer_def)
  have quiet: "\<not> fst (trigger_call (trigger first_hook) (iteration first_trainer) (epoch first_trainer))"
    by (simp add: first_trainer_def first_hook_def SummaryHook_new_def IntervalTrigger_new_def)
  have au: "dump_audios (summary_prefix first_hook) 1 (audios (summary first_hook))
      = Inr [add_audio ''training/wave'' (Arr [0]) 1 (Num 16000)]"
    by (simp add: first_hook_def SummaryHook_new_def)
  have "SummaryHook_pre_step Trainer_reset_timer first_hook first_trainer []
      = (Inr (first_hook
                \<lparr>summary := empty_summary_dict,
                 writer := [add_scalar ''training/a'' (Fin 2) 1,
                            add_scalar ''training/lr'' (Fin (1 / 2)) 1,
                            add_scalar ''training/time_per_step'' (Fin 4) 1,
                            add_scalar ''training/time_rel_data_loading'' (Fin (1 / 2)) 1,
                            add_audio ''training/wave'' (Arr [0]) 1 (Num 16000)]\<rparr>,
              first_trainer\<lparr>timer := \<lparr>timings = []\<rparr>\<rparr>),
         [timing_bug_warning [4] [1, 1]])"
    using SummaryHook_pre_step_first_iteration [OF it, of first_hook Trainer_reset_timer "[]",
        THEN conjunct1, rule_format, OF au]
    by (simp add: first_hook_def first_trainer_def SummaryHook_new_def IntervalTrigger_new_def
        as_dict_def dump_timer_item_def np_mean_def np_divide_def Trainer_reset_timer_def)
  then show ?thesis
    using it quiet au by blast
qed

text \<open>
  C3. A SummaryHook with prefix 'training' and an empty summary receives, through
  \<open>post_step\<close>, the loss a = 1.0 at iteration 1 and a = 3.0 at iteration 2; its trigger
  fires at iteration 2. Then \<open>pre_step\<close> at iteration 2 writes the scalar 'training/a'
  with the mean 2.0 at iteration 2 (followed by the timer's scalars), leaves the summary
  empty and hands the trainer to \<open>reset_timer\<close>, after which the timer holds no samples.
\<close>

theorem SummaryHook_mean_scenario:
  assumes "summary self = empty_summary_dict" and "summary_prefix self = ''training''"
    and "storage_dir self = None"
    and "iteration tr1 = 1" and "iteration tr2 = 2"
    and "trainer_storage_dir tr1 = trainer_storage_dir tr2"
    and "fst (trigger_call (trigger self) 2 (epoch tr2))"
  shows "\<exists>h1 h2 h3 out'.
           SummaryHook_post_step self tr1 (losses_review ''a'' 1) = Inr h1
         \<and> SummaryHook_post_step h1 tr2 (losses_review ''a'' 3) = Inr h2
         \<and> SummaryHook_pre_step reset_timer h2 tr2 out = (Inr (h3, reset_timer tr2), out')
         \<and> writer h3 = writer self @ add_scalar ''training/a'' (Fin 2) 2
              # map (\<lambda>item. snd (dump_timer_item ''training'' 2 (as_dict (timer tr2)) item))
                  (as_dict (timer tr2))
         \<and> summary h3 = empty_summary_dict
         \<and> timings (timer (Trainer_reset_timer tr2)) = []"
  using assms
  by (simp add: SummaryHook_post_step_def update_summary_def losses_review_def
      empty_summary_dict_def append_item_def SummaryHook_pre_step_def dump_summary_def
      reset_summary_def np_mean_def Trainer_reset_timer_def Let_def case_prod_beta)

theorem SummaryHook_mean_scenario_witness:
  "fst (trigger_call (trigger (SummaryHook_new (2, Iteration) None ''training'')) 2 0)
   \<and> (\<exists>h1 h2 h3 out'.
         SummaryHook_post_step (SummaryHook_new (2, Iteration) None ''training'')
           \<lparr>iteration = 1, epoch = 0, timer = \<lparr>timings = []\<rparr>, trainer_storage_dir = ''exp''\<rparr>
           (losses_review ''a'' 1) = Inr h1
       \<and> SummaryHook_post_step h1
           \<lparr>iteration = 2, epoch = 0, timer = \<lparr>timings = []\<rparr>, trainer_storage_dir = ''exp''\<rparr>
           (losses_review ''a'' 3) = Inr h2
       \<and> SummaryHook_pre_step Trainer_reset_timer h2
           \<lparr>iteration = 2, epoch = 0, timer = \<lparr>timings = []\<rparr>, trainer_storage_dir = ''exp''\<rparr> []
          = (Inr (h3, \<lparr>iteration = 2, epoch = 0, timer = \<lparr>timings = []\<rparr>, trainer_storage_dir = ''exp''\<rparr>), out')
       \<and> writer h3 = [add_scalar ''training/a'' (Fin 2) 2]
       \<and> summary h3 = empty_summary_dict)"
  using SummaryHook_mean_scenario [of "SummaryHook_new (2, Iteration) None ''training''"
      "\<lparr>iteration = 1, epoch = 0, timer = \<lparr>timings = []\<rparr>, trainer_storage_dir = ''exp''\<rparr>"
      "\<lparr>iteration = 2, epoch = 0, timer = \<lparr>timings = []\<rparr>, trainer_storage_dir = ''exp''\<rparr>"
      Trainer_reset_timer "[]"]
  by (simp add: SummaryHook_new_def IntervalTrigger_new_def Trainer_reset_timer_def as_dict_def)

lemma dump_audios_Inl: "dump_audios prefix it xs = Inl e \<Longrightarrow> e = AssertionError"
  by (induction prefix it xs rule: dump_audios.induct) (auto split: if_splits sum.splits)

lemma dump_summary_Inl:
  "fst (dump_summary R self trainer out) = Inl e \<Longrightarrow> e = AssertionError"
  by (auto simp: dump_summary_def Let_def split: sum.splits dest: dump_audios_Inl)

text \<open>
  C5. When the trigger of a ValidationHook fires, \<open>pre_step\<close> raises AssertionError if
  the trainer's timer holds samples before the pass, and raises AssertionError if it holds
  samples after the flush (after the trainer's \<open>reset_timer\<close> ran on the trainer the
  pass returned); so whenever \<open>pre_step\<close> returns, the timer was empty before the pass
  and is empty after the flush. This holds for every \<open>validate\<close> and \<open>reset_timer\<close>.
\<close>

theorem ValidationHook_pre_step_timer_empty:
  assumes "fst (trigger_call (trigger self) (iteration trainer) (epoch trainer))"
  shows "(timings (timer trainer) \<noteq> []
            \<longrightarrow> fst (ValidationHook_pre_step validate reset_timer self trainer out) = Inl AssertionError)
       \<and> (timings (timer (reset_timer (snd (validate trainer (iterator self))))) \<noteq> []
            \<longrightarrow> fst (ValidationHook_pre_step validate reset_timer self trainer out) = Inl AssertionError)
       \<and> (\<forall>self' trainer'.
            fst (ValidationHook_pre_step validate reset_timer self trainer out) = Inr (self', trainer')
            \<longrightarrow> timings (timer trainer) = [] \<and> timings (timer trainer') = [])"
proof -
  obtain trg where call: "trigger_call (trigger self) (iteration trainer) (epoch trainer) = (True, trg)"
    using assms by (cases "trigger_call (trigger self) (iteration trainer) (epoch trainer)") simp
  obtain evaluation trainer1 where val: "validate trainer (iterator self) = (evaluation, trainer1)"
    by (cases "validate trainer (iterator self)")
  define self2 where "self2 = fold (\<lambda>rv h. update_summary h rv) evaluation (self\<lparr>trigger := trg\<rparr>)"
  define r where "r = dump_summary reset_timer self2 trainer1 (out @ [''Starting Validation''])"
  have unfold: "ValidationHook_pre_step validate reset_timer self trainer out =
      (if timings (timer trainer) \<noteq> [] then (Inl AssertionError, out)
       else case r of
              (Inl e, out2) \<Rightarrow> (Inl e, out2)
            | (Inr (self3, trainer2), out2) \<Rightarrow>
                if length (timings (timer trainer2)) \<noteq> 0 then (Inl AssertionError, out2)
                else (Inr (self3, trainer2), out2 @ [''Finished Validation'']))"
    by (simp add: ValidationHook_pre_step_def call val self2_def r_def)
  show ?thesis
  proof (cases "fst r")
    case (Inl e)
    then have "e = AssertionError" unfolding r_def by (rule dump_summary_Inl)
    with Inl show ?thesis
      by (cases r) (auto simp: unfold)
  next
    case (Inr p)
    obtain self3 trainer2 where p: "p = (self3, trainer2)" by (cases p)
    have "trainer2 = reset_timer trainer1"
      using dump_summary_Inr [of reset_timer self2 trainer1 _ self3 trainer2] Inr p
      unfolding r_def by simp
    with Inr p val show ?thesis
      by (cases r) (auto simp: unfold)
  qed
qed

lemma validation_pass_run: "ValidationHook_pre_step one_pass Trainer_reset_timer (ValidationHook_new (2, Iteration) ())
        \<lparr>iteration = 2, epoch = 0, timer = \<lparr>timings = []\<rparr>, trainer_storage_dir = ''exp''\<rparr> []
      = (Inr ((ValidationHook_new (2, Iteration) ())\<lparr>writer := [add_scalar ''validation/loss'' (Fin 5) 2,
                          add_scalar ''validation/time_per_step'' (Fin 1) 2]\<rparr>,
        \<lparr>iteration = 2, epoch = 0, timer = \<lparr>timings = []\<rparr>, trainer_storage_dir = ''exp''\<rparr>),
        [''Starting Validation'', ''Finished Validation''])"
  by (simp add: ValidationHook_new_def SummaryHook_new_def IntervalTrigger_new_def one_pass_def
      SummaryHook.extend_def ValidationHook.fields_def ValidationHook_pre_step_def
      update_summary_def losses_review_def empty_summary_dict_def append_item_def
      dump_summary_def reset_summary_def np_mean_def Trainer_reset_timer_def as_dict_def
      dump_timer_item_def)


theorem ValidationHook_pre_step_timer_empty_witness:
  "fst (trigger_call (trigger (ValidationHook_new (2, Iteration) ())) 2 0)
   \<and> timings (timer \<lparr>iteration = 2, epoch = 0, timer = \<lparr>timings = [(''time_per_step'', [1])]\<rparr>,
                       trainer_storage_dir = ''exp''\<rparr>) \<noteq> []
   \<and> fst (ValidationHook_pre_step one_pass Trainer_reset_timer (ValidationHook_new (2, Iteration) ())
        \<lparr>iteration = 2, epoch = 0, timer = \<lparr>timings = [(''time_per_step'', [1])]\<rparr>,
          trainer_storage_dir = ''exp''\<rparr> []) = Inl AssertionError
   \<and> timings (timer (id (snd (one_pass
        \<lparr>iteration = 2, epoch = 0, timer = \<lparr>timings = []\<rparr>, trainer_storage_dir = ''exp''\<rparr>
        (iterator (ValidationHook_new (2, Iteration) ())))))) \<noteq> []
   \<and> fst (ValidationHook_pre_step one_pass id (ValidationHook_new (2, Iteration) ())
        \<lparr>iteration = 2, epoch = 0, timer = \<lparr>timings = []\<rparr>, trainer_storage_dir = ''exp''\<rparr> [])
      = Inl AssertionError
   \<and> fst (ValidationHook_pre_step one_pass Trainer_reset_timer
          (ValidationHook_new (2, Iteration) ())
          \<lparr>iteration = 2, epoch = 0, timer = \<lparr>timings = []\<rparr>, trainer_storage_dir = ''exp''\<rparr> [])
        = Inr ((ValidationHook_new (2, Iteration) ())
                 \<lparr>writer := [add_scalar ''validation/loss'' (Fin 5) 2,
                             add_scalar ''validation/time_per_step'' (Fin 1) 2]\<rparr>,
               \<lparr>iteration = 2, epoch = 0, timer = \<lparr>timings = []\<rparr>, trainer_storage_dir = ''exp''\<rparr>)
   \<and> timings (timer \<lparr>iteration = 2, epoch = 0, timer = \<lparr>timings = []\<rparr>,
                       trainer_storage_dir = ''exp''\<rparr>) = []"
proof -
  let ?H = "ValidationHook_new (2, Iteration) () :: unit ValidationHook"
  let ?T0 = "\<lparr>iteration = 2, epoch = 0, timer = \<lparr>timings = []\<rparr>, trainer_storage_dir = ''exp''\<rparr>"
  let ?T1 = "\<lparr>iteration = 2, epoch = 0, timer = \<lparr>timings = [(''time_per_step'', [1])]\<rparr>,
              trainer_storage_dir = ''exp''\<rparr>"
  have fires: "fst (trigger_call (trigger ?H) 2 0)"
    by (simp add: ValidationHook_new_def SummaryHook_new_def IntervalTrigger_new_def
        SummaryHook.extend_def ValidationHook.fields_def)
  have f0: "fst (trigger_call (trigger ?H) (iteration ?T0) (epoch ?T0))"
    using fires by simp
  have f1: "fst (trigger_call (trigger ?H) (iteration ?T1) (epoch ?T1))"
    using fires by simp
  have full: "timings (timer ?T1) \<noteq> []"
    by simp
  have one: "timings (timer (id (snd (one_pass ?T0 (iterator ?H))))) \<noteq> []"
    by (simp add: one_pass_def)
  have before: "fst (ValidationHook_pre_step one_pass Trainer_reset_timer ?H ?T1 []) = Inl AssertionError"
    using ValidationHook_pre_step_timer_empty [OF f1, of one_pass Trainer_reset_timer "[]"] full
    by blast
  have after: "fst (ValidationHook_pre_step one_pass id ?H ?T0 []) = Inl AssertionError"
    using ValidationHook_pre_step_timer_empty [OF f0, of one_pass id "[]"] one
    by blast
  have ok: "fst (ValidationHook_pre_step one_pass Trainer_reset_timer ?H ?T0 [])
        = Inr (?H\<lparr>writer := [add_scalar ''validation/loss'' (Fin 5) 2,
                             add_scalar ''validation/time_per_step'' (Fin 1) 2]\<rparr>, ?T0)"
    by (simp add: validation_pass_run)
  have empty: "timings (timer ?T0) = []"
    using ValidationHook_pre_step_timer_empty [OF f0, of one_pass Trainer_reset_timer "[]"] ok
    by blast
  show ?thesis
    using fires full before one after ok empty by blast
qed

lemma warning_text: "timing_bug_warning [4] [1, 1] =
  ''Warning: padertorch.Trainer timing bug.len(time_per_step) == 1 != len(scalar) == 2''"
  by code_simp







section \<open>Theorems about the losses\<close>

text \<open>
  C10. When the two arguments are neither both tensors nor both packed sequences,
  \<open>softmax_cross_entropy\<close> and \<open>deep_clustering_loss\<close> raise the ValueError whose
  message names the two types, and compute no loss.
\<close>

theorem incompatible_types_raise:
  "\<not> same_kind x t \<Longrightarrow> \<not> same_kind y u \<Longrightarrow>
   softmax_cross_entropy x t
     = Inl (ValueError (''Incompatible types: '' @ type_repr x @ '', '' @ type_repr t))
   \<and> deep_clustering_loss packed y u
     = Inl (ValueError (''Incompatible types: '' @ type_repr y @ '', '' @ type_repr u))"
  by (cases x; cases t; cases y; cases u) (simp_all add: incompatible_types_def)

theorem incompatible_types_raise_witness:
  "\<not> same_kind (Tensor \<lparr>shape = [1, 2], data = [0, 0 :: real]\<rparr>)
        (PackedSequence \<lparr>shape = [1], data = [0 :: int]\<rparr> [1])
   \<and> \<not> same_kind (PackedSequence dc_x [2]) (Object ''numpy.ndarray'' :: real arg)
   \<and> softmax_cross_entropy (Tensor \<lparr>shape = [1, 2], data = [0, 0]\<rparr>)
        (PackedSequence \<lparr>shape = [1], data = [0]\<rparr> [1])
      = Inl (ValueError (''Incompatible types: <class 'torch.Tensor'>, ''
                         @ ''<class 'torch.nn.utils.rnn.PackedSequence'>''))
   \<and> deep_clustering_loss (\<lambda>x bx t bt. Inr NaN) (PackedSequence dc_x [2]) (Object ''numpy.ndarray'')
      = Inl (ValueError (''Incompatible types: <class 'torch.nn.utils.rnn.PackedSequence'>, ''
                         @ ''<class 'numpy.ndarray'>''))"
  using incompatible_types_raise [of "Tensor \<lparr>shape = [1, 2], data = [0, 0]\<rparr>"
      "PackedSequence \<lparr>shape = [1], data = [0]\<rparr> [1]"
      "PackedSequence dc_x [2]" "Object ''numpy.ndarray''" "\<lambda>x bx t bt. Inr NaN"]
  by simp

text \<open>
  C1 fails on the code: \<open>deep_clustering_loss\<close> divides with \<^verbatim>\<open>//\<close>. For the two
  embeddings \<open>dc_x\<close> and the assignment \<open>dc_t\<close> the combination of the norms is
  4 - 2 * 2 + 2 = 2 and N squared is 4: the specified loss is 1/2, the code returns 0.
\<close>

theorem deep_clustering_loss_floors:
  "deep_clustering_loss packed (Tensor dc_x) (Tensor dc_t) = Inr (Fin 0)
   \<and> deep_clustering_spec dc_x dc_t = 1 / 2"
proof
  show "deep_clustering_loss packed (Tensor dc_x) (Tensor dc_t) = Inr (Fin 0)"
    by (simp add: clustering_loss_of_tensors_def einsum_def dc_x_def dc_t_def sum_of_squares_def
        floor_divide_def upt_rec)
  show "deep_clustering_spec dc_x dc_t = 1 / 2"
    by (simp add: deep_clustering_spec_def rows_def transposed_product_def frobenius_sq_def
        dc_x_def dc_t_def upt_rec lessThan_Suc eval_nat_numeral)
qed

subsection \<open>Lists of blocks\<close>

lemma upt_0_2: "[0..<2] = [0, Suc 0]"
  by (simp add: upt_rec numeral_2_eq_2)

lemma take_drop_nth:
  "off + m \<le> length xs \<Longrightarrow> take m (drop off xs) = map (\<lambda>j. xs ! (off + j)) [0..<m]"
  by (rule nth_equalityI) simp_all

subsection \<open>pit_mse_loss\<close>

text \<open>
  A flat list of length n * m is the concatenation of its n blocks of length m; the
  elements of a tensor of shape (T, 2, F) are its elements by index, in row-major order.
\<close>

lemma chunks_concat:
  "length xs = n * m \<Longrightarrow> concat (map (\<lambda>i. take m (drop (i * m) xs)) [0..<n]) = xs"
proof (induction n arbitrary: xs)
  case 0
  then show ?case by simp
next
  case (Suc n)
  have len: "length (drop m xs) = n * m"
    using Suc.prems by simp
  have "concat (map (\<lambda>i. take m (drop (i * m) xs)) [0..<Suc n])
        = take m xs @ concat (map (\<lambda>i. take m (drop (Suc i * m) xs)) [0..<n])"
    by (simp add: upt_conv_Cons map_Suc_upt [symmetric] comp_def del: upt_Suc)
  also have "(\<lambda>i. take m (drop (Suc i * m) xs)) = (\<lambda>i. take m (drop (i * m) (drop m xs)))"
    by (simp add: add.commute)
  also have "take m xs @ concat (map (\<lambda>i. take m (drop (i * m) (drop m xs))) [0..<n]) = xs"
    using Suc.IH [OF len] by simp
  finally show ?case .
qed

lemma map2_map_same: "map2 h (map g1 xs) (map g2 xs) = map (\<lambda>x. h (g1 x) (g2 x)) xs"
  by (induction xs) simp_all

lemma map2_concat_map:
  "(\<And>x. x \<in> set xs \<Longrightarrow> length (g x) = length (k x)) \<Longrightarrow>
   map2 h (concat (map g xs)) (concat (map k xs)) = concat (map (\<lambda>x. map2 h (g x) (k x)) xs)"
  by (induction xs) simp_all

lemma map2_elements3:
  "map2 h (elements3 T F g1) (elements3 T F g2) = elements3 T F (\<lambda>t k f. h (g1 t k f) (g2 t k f))"
proof -
  have inner: "map2 h (concat (map (\<lambda>k. map (g1 t k) [0..<F]) [0..<2]))
                      (concat (map (\<lambda>k. map (g2 t k) [0..<F]) [0..<2]))
      = concat (map (\<lambda>k. map (\<lambda>f. h (g1 t k f) (g2 t k f)) [0..<F]) [0..<2])" for t
    by (subst map2_concat_map) (simp_all add: map2_map_same)
  have "map2 h (elements3 T F g1) (elements3 T F g2)
      = concat (map (\<lambda>t. map2 h (concat (map (\<lambda>k. map (g1 t k) [0..<F]) [0..<2]))
                               (concat (map (\<lambda>k. map (g2 t k) [0..<F]) [0..<2]))) [0..<T])"
    unfolding elements3_def by (rule map2_concat_map) (simp add: length_concat comp_def)
  then show ?thesis
    by (simp only: inner elements3_def)
qed

lemma length_elements3: "length (elements3 T F g) = T * 2 * F"
  by (simp add: elements3_def length_concat comp_def sum_list_triv eval_nat_numeral algebra_simps)

lemma data_elements3:
  assumes "wf_tensor x" and "shape x = [T, 2, F]"
  shows "data x = elements3 T F (at3 x)"
proof -
  have len: "length (data x) = T * (2 * F)"
    using assms by (simp add: wf_tensor_def)
  have blk: "take (2 * F) (drop (t * (2 * F)) (data x))
        = concat (map (\<lambda>k. map (\<lambda>f. at3 x t k f) [0..<F]) [0..<2])" if "t < T" for t
  proof -
    have "t * (2 * F) + 2 * F \<le> T * (2 * F)"
      using that by (metis Suc_leI mult_Suc mult_le_mono1 add.commute)
    then have le: "t * (2 * F) + 2 * F \<le> length (data x)"
      using len by simp
    have "take (2 * F) (drop (t * (2 * F)) (data x))
        = take F (drop (t * (2 * F)) (data x)) @ take F (drop (t * (2 * F) + F) (data x))"
      by (simp add: mult_2 take_add add.commute)
    also have "take F (drop (t * (2 * F)) (data x)) = map (\<lambda>f. at3 x t 0 f) [0..<F]"
      using le by (subst take_drop_nth) (simp_all add: at3_def assms algebra_simps)
    also have "take F (drop (t * (2 * F) + F) (data x)) = map (\<lambda>f. at3 x t 1 f) [0..<F]"
      using le by (subst take_drop_nth) (simp_all add: at3_def assms algebra_simps)
    finally show ?thesis
      by (simp add: upt_0_2)
  qed
  have "data x = concat (map (\<lambda>t. take (2 * F) (drop (t * (2 * F)) (data x))) [0..<T])"
    using chunks_concat [OF len] by simp
  also have "\<dots> = concat (map (\<lambda>t. concat (map (\<lambda>k. map (\<lambda>f. at3 x t k f) [0..<F]) [0..<2])) [0..<T])"
    by (rule arg_cong [where f = concat], rule map_cong) (simp_all add: blk)
  finally show ?thesis
    by (simp add: elements3_def)
qed

lemma elements3_cong:
  "(\<And>t k f. t < T \<Longrightarrow> k < 2 \<Longrightarrow> f < F \<Longrightarrow> g t k f = g' t k f) \<Longrightarrow>
   elements3 T F g = elements3 T F g'"
  unfolding elements3_def
  by (intro arg_cong [where f = concat] map_cong refl) simp

lemma index_axis_1_sources:
  assumes "wf_tensor x" and "shape x = [T, 2, F]" and "p0 < 2" and "p1 < 2"
  shows "index_axis_1 x [p0, p1]
       = Inr \<lparr>shape = [T, 2, F], data = elements3 T F (\<lambda>t k f. at3 x t ([p0, p1] ! k) f)\<rparr>"
proof -
  have len: "length (data x) = T * (2 * F)"
    using assms by (simp add: wf_tensor_def)
  have blk: "take F (drop ((t * 2 + p) * F) (data x)) = map (\<lambda>f. at3 x t p f) [0..<F]"
    if "t < T" and "p < 2" for t p
  proof -
    have "t * 2 + p + 1 \<le> T * 2"
      using that by simp
    then have "(t * 2 + p + 1) * F \<le> T * 2 * F"
      by (rule mult_le_mono1)
    then have "(t * 2 + p) * F + F \<le> length (data x)"
      using len by (simp add: algebra_simps)
    then show ?thesis
      by (subst take_drop_nth) (simp_all add: at3_def assms)
  qed
  have "concat (map (\<lambda>t. concat (map (\<lambda>p. take F (drop ((t * 2 + p) * F) (data x))) [p0, p1])) [0..<T])
      = concat (map (\<lambda>t. concat (map (\<lambda>k. map (\<lambda>f. at3 x t ([p0, p1] ! k) f) [0..<F]) [0..<2])) [0..<T])"
  proof (rule arg_cong [where f = concat], rule map_cong, rule refl)
    fix t assume "t \<in> set [0..<T]"
    then have "t < T" by simp
    then show "concat (map (\<lambda>p. take F (drop ((t * 2 + p) * F) (data x))) [p0, p1])
        = concat (map (\<lambda>k. map (\<lambda>f. at3 x t ([p0, p1] ! k) f) [0..<F]) [0..<2])"
      using assms by (simp add: blk upt_0_2)
  qed
  then show ?thesis
    using assms by (simp add: index_axis_1_def elements3_def)
qed

lemma mse_loss_sources:
  assumes "wf_tensor e" and "wf_tensor x" and "shape e = [T, 2, F]" and "shape x = [T, 2, F]"
    and "p0 < 2" and "p1 < 2"
  shows "\<exists>permuted. index_axis_1 x [p0, p1] = Inr permuted
          \<and> mse_loss e permuted = Inr (mse_under (\<lambda>k. [p0, p1] ! k) e x)"
proof -
  let ?P = "\<lparr>shape = [T, 2, F], data = elements3 T F (\<lambda>t k f. at3 x t ([p0, p1] ! k) f)\<rparr>"
  have "index_axis_1 x [p0, p1] = Inr ?P"
    using assms by (intro index_axis_1_sources)
  moreover have "mse_loss e ?P = Inr (mse_under (\<lambda>k. [p0, p1] ! k) e x)"
    using assms
    by (simp add: mse_loss_def mse_under_def data_elements3 [of e T F] map2_elements3)
  ultimately show ?thesis by blast
qed


lemma mse_under_cong:
  "(\<And>k. k < 2 \<Longrightarrow> p k = p' k) \<Longrightarrow> mse_under p e x = mse_under p' e x"
  unfolding mse_under_def
  by (rule arg_cong [where f = fmean], rule elements3_cong) simp

lemma pit_mse_loss_spec:
  assumes "wf_tensor e" and "wf_tensor x" and "shape e = [T, 2, F]" and "shape x = [T, 2, F]"
  shows "pit_mse_loss e x = Inr (pit_mse_spec e x)"
proof -
  obtain q0 where q0: "index_axis_1 x [0, 1] = Inr q0"
      "mse_loss e q0 = Inr (mse_under (\<lambda>k. [0, 1] ! k) e x)"
    using mse_loss_sources [OF assms, of 0 1] by auto
  obtain q1 where q1: "index_axis_1 x [1, 0] = Inr q1"
      "mse_loss e q1 = Inr (mse_under (\<lambda>k. [1, 0] ! k) e x)"
    using mse_loss_sources [OF assms, of 1 0] by auto
  have id: "mse_under (\<lambda>k. [0, 1] ! k) e x = mse_under (\<lambda>k. k) e x"
    by (rule mse_under_cong) (auto simp: less_2_cases_iff)
  have sw: "mse_under (\<lambda>k. [1, 0] ! k) e x = mse_under (\<lambda>k. 1 - k) e x"
    by (rule mse_under_cong) (auto simp: less_2_cases_iff)
  show ?thesis
    using assms q0 q1 id sw
    by (simp add: pit_mse_loss_def permutations_of_sources_def pit_mse_spec_def)
qed


lemma fsum_zeros: "fsum (map (\<lambda>x. Fin 0) xs) = Fin 0"
  by (induction xs) (simp_all add: fsum_def)

lemma fmean_same:
  assumes "xs \<noteq> []" and "\<forall>v \<in> set xs. finite_value v"
  shows "fmean (map2 (\<lambda>u v. fsquare (fsub u v)) xs xs) = Fin 0"
proof -
  have "fsquare (fsub v v) = Fin 0" if "v \<in> set xs" for v
    using assms(2) that by (cases v) auto
  then have "map2 (\<lambda>u v. fsquare (fsub u v)) xs xs = map (\<lambda>x. Fin 0) xs"
    by (simp add: zip_same_conv_map)
  then show ?thesis
    using assms(1) by (simp add: fmean_def fsum_zeros)
qed

lemma fsum_squares_finite:
  "length xs = length ys \<Longrightarrow> \<forall>v \<in> set xs. finite_value v \<Longrightarrow> \<forall>v \<in> set ys. finite_value v \<Longrightarrow>
   \<exists>s \<ge> 0. fsum (map2 (\<lambda>u v. fsquare (fsub u v)) xs ys) = Fin s"
proof (induction xs ys rule: list_induct2)
  case Nil
  then show ?case by (simp add: fsum_def)
next
  case (Cons x xs y ys)
  obtain a where a: "x = Fin a"
    using Cons.prems(1) by (cases x) auto
  obtain b where b: "y = Fin b"
    using Cons.prems(2) by (cases y) auto
  obtain s where s: "fsum (map2 (\<lambda>u v. fsquare (fsub u v)) xs ys) = Fin s" "0 \<le> s"
    using Cons.IH Cons.prems by auto
  have "fsum (map2 (\<lambda>u v. fsquare (fsub u v)) (x # xs) (y # ys)) = Fin ((a - b) ^ 2 + s)"
    using s(1) by (simp add: fsum_def a b)
  moreover have "0 \<le> (a - b) ^ 2 + s"
    using s(2) by simp
  ultimately show ?case by blast
qed

lemma fmean_finite:
  assumes "length xs = length ys" and "xs \<noteq> []"
    and "\<forall>v \<in> set xs. finite_value v" and "\<forall>v \<in> set ys. finite_value v"
  shows "\<exists>m \<ge> 0. fmean (map2 (\<lambda>u v. fsquare (fsub u v)) xs ys) = Fin m"
proof -
  let ?zs = "map2 (\<lambda>u v. fsquare (fsub u v)) xs ys"
  have ne: "?zs \<noteq> []"
    using assms(1,2) by (cases xs; cases ys) auto
  obtain s where "fsum ?zs = Fin s" "0 \<le> s"
    using fsum_squares_finite [OF assms(1,3,4)] by auto
  then show ?thesis
    using ne by (simp add: fmean_def)
qed

lemma mse_under_data:
  assumes "wf_tensor e" and "shape e = [T, 2, F]"
  shows "mse_under p e x
       = fmean (map2 (\<lambda>u v. fsquare (fsub u v)) (data e)
                  (elements3 T F (\<lambda>t k f. at3 x t (p k) f)))"
  using assms by (simp add: mse_under_def data_elements3 [of e T F] map2_elements3)

lemma index_axis_1_subset:
  "index_axis_1 x perm = Inr y \<Longrightarrow> set (data y) \<subseteq> set (data x)"
  by (auto simp: index_axis_1_def Let_def split: list.splits if_splits
      dest!: in_set_takeD in_set_dropD)

lemma swap_sources_finite:
  assumes "wf_tensor x" and "shape x = [T, 2, F]" and "\<forall>v \<in> set (data x). finite_value v"
  shows "\<forall>v \<in> set (elements3 T F (\<lambda>t k f. at3 x t (1 - k) f)). finite_value v"
proof -
  have "index_axis_1 x [1, 0]
      = Inr \<lparr>shape = [T, 2, F], data = elements3 T F (\<lambda>t k f. at3 x t ([1, 0] ! k) f)\<rparr>"
    using assms(1,2) by (intro index_axis_1_sources) simp_all
  moreover have "elements3 T F (\<lambda>t k f. at3 x t ([1, 0] ! k) f)
      = elements3 T F (\<lambda>t k f. at3 x t (1 - k) f)"
    by (rule elements3_cong) (auto simp: less_2_cases_iff)
  ultimately have "set (elements3 T F (\<lambda>t k f. at3 x t (1 - k) f)) \<subseteq> set (data x)"
    using index_axis_1_subset [of x "[1, 0]"] by fastforce
  then show ?thesis
    using assms(3) by blast
qed


text \<open>
  C6, as stated, fails for a tensor without elements: for the shape (0, 2, 1) both
  candidates are means of nothing, and the loss of a target against itself is not a
  number instead of 0. It also fails for a target with an infinite element: the identity
  candidate contains the difference of two equal infinities.
\<close>

theorem pit_mse_loss_no_frames:
  "wf_tensor no_frames \<and> shape no_frames = [0, 2, 1]
   \<and> pit_mse_loss no_frames no_frames = Inr NaN
   \<and> pit_mse_loss no_frames no_frames \<noteq> Inr (Fin 0)
   \<and> wf_tensor infinite_source \<and> shape infinite_source = [1, 2, 1]
   \<and> pit_mse_loss infinite_source infinite_source = Inr NaN"
  by (simp add: no_frames_def infinite_source_def wf_tensor_def pit_mse_loss_def
      permutations_of_sources_def index_axis_1_def mse_loss_def fmean_def fsum_def)

text \<open>
  C6, amended. For well-formed tensors of shape (T, 2, F), \<open>pit_mse_loss\<close> is the
  smaller of the two mean squared errors between the estimate and the target under the
  identity and under the exchange of the two sources; when T and F are positive and every
  element of the target is finite, it is exactly 0 for an estimate equal to the target and
  for an estimate equal to the target with its sources exchanged.
\<close>

theorem pit_mse_loss_min:
  assumes "wf_tensor e" and "wf_tensor x" and "shape e = [T, 2, F]" and "shape x = [T, 2, F]"
  shows "pit_mse_loss e x = Inr (pit_mse_spec e x)
       \<and> (0 < T \<and> 0 < F \<and> (\<forall>v \<in> set (data x). finite_value v) \<longrightarrow>
            pit_mse_loss x x = Inr (Fin 0) \<and> pit_mse_loss (swap_sources x) x = Inr (Fin 0))"
proof (intro conjI impI)
  show "pit_mse_loss e x = Inr (pit_mse_spec e x)"
    using assms by (rule pit_mse_loss_spec)
next
  assume hyp: "0 < T \<and> 0 < F \<and> (\<forall>v \<in> set (data x). finite_value v)"
  let ?S = "elements3 T F (\<lambda>t k f. at3 x t (1 - k) f)"
  have fin: "\<forall>v \<in> set (data x). finite_value v" using hyp by simp
  have finS: "\<forall>v \<in> set ?S. finite_value v"
    using assms(2,4) fin by (rule swap_sources_finite)
  have len: "length (data x) = T * 2 * F"
    using assms(2,4) by (simp add: wf_tensor_def)
  have lenS: "length ?S = T * 2 * F" by (rule length_elements3)
  have ne: "data x \<noteq> []" using len hyp by auto
  have "mse_under (\<lambda>k. k) x x
      = fmean (map2 (\<lambda>u v. fsquare (fsub u v)) (data x) (elements3 T F (at3 x)))"
    using mse_under_data [OF assms(2,4), of "\<lambda>k. k" x] by simp
  also have "\<dots> = Fin 0"
    using data_elements3 [OF assms(2,4)] fmean_same [OF ne fin] by simp
  finally have same: "mse_under (\<lambda>k. k) x x = Fin 0" .
  obtain m where m: "mse_under (\<lambda>k. 1 - k) x x = Fin m" "0 \<le> m"
    using fmean_finite [of "data x" ?S] len lenS ne fin finS
      mse_under_data [OF assms(2,4), of "\<lambda>k. 1 - k" x]
    by auto
  have "pit_mse_spec x x = Fin 0"
    using same m by (simp add: pit_mse_spec_def)
  then show "pit_mse_loss x x = Inr (Fin 0)"
    using pit_mse_loss_spec [OF assms(2) assms(2) assms(4) assms(4)] by simp
next
  assume hyp: "0 < T \<and> 0 < F \<and> (\<forall>v \<in> set (data x). finite_value v)"
  let ?S = "elements3 T F (\<lambda>t k f. at3 x t (1 - k) f)"
  let ?s = "swap_sources x"
  have fin: "\<forall>v \<in> set (data x). finite_value v" using hyp by simp
  have finS: "\<forall>v \<in> set ?S. finite_value v"
    using assms(2,4) fin by (rule swap_sources_finite)
  have len: "length (data x) = T * 2 * F"
    using assms(2,4) by (simp add: wf_tensor_def)
  have lenS: "length ?S = T * 2 * F" by (rule length_elements3)
  have neS: "?S \<noteq> []" using lenS hyp by auto
  have ds: "data ?s = ?S"
    using assms(4) by (simp add: swap_sources_def)
  have sh: "shape ?s = [T, 2, F]"
    using assms(4) by (simp add: swap_sources_def)
  have wf: "wf_tensor ?s"
    using assms(4) by (simp add: swap_sources_def wf_tensor_def length_elements3)
  have "mse_under (\<lambda>k. 1 - k) ?s x = fmean (map2 (\<lambda>u v. fsquare (fsub u v)) ?S ?S)"
    using mse_under_data [OF wf sh, of "\<lambda>k. 1 - k" x] ds by simp
  also have "\<dots> = Fin 0"
    by (rule fmean_same [OF neS finS])
  finally have same: "mse_under (\<lambda>k. 1 - k) ?s x = Fin 0" .
  have "mse_under (\<lambda>k. k) ?s x
      = fmean (map2 (\<lambda>u v. fsquare (fsub u v)) ?S (data x))"
    using mse_under_data [OF wf sh, of "\<lambda>k. k" x] ds data_elements3 [OF assms(2,4)] by simp
  then obtain m where m: "mse_under (\<lambda>k. k) ?s x = Fin m" "0 \<le> m"
    using fmean_finite [of ?S "data x"] len lenS neS fin finS by auto
  have "pit_mse_spec ?s x = Fin 0"
    using same m by (simp add: pit_mse_spec_def)
  then show "pit_mse_loss ?s x = Inr (Fin 0)"
    using pit_mse_loss_spec [OF wf assms(2) sh assms(4)] by simp
qed

theorem pit_mse_loss_min_witness:
  "wf_tensor two_sources \<and> shape two_sources = [1, 2, 1] \<and> (0 :: nat) < 1
   \<and> data two_sources = [Fin 3, Fin 5]
   \<and> swap_sources two_sources = \<lparr>shape = [1, 2, 1], data = [Fin 5, Fin 3]\<rparr>
   \<and> pit_mse_loss two_sources two_sources = Inr (Fin 0)
   \<and> pit_mse_loss \<lparr>shape = [1, 2, 1], data = [Fin 5, Fin 3]\<rparr> two_sources = Inr (Fin 0)"
proof -
  have wf: "wf_tensor two_sources" and sh: "shape two_sources = [1, 2, 1]"
    and dt: "data two_sources = [Fin 3, Fin 5]"
    by (simp_all add: two_sources_def wf_tensor_def)
  have fin: "\<forall>v \<in> set (data two_sources). finite_value v"
    by (simp add: two_sources_def)
  have sw: "swap_sources two_sources = \<lparr>shape = [1, 2, 1], data = [Fin 5, Fin 3]\<rparr>"
    by (simp add: swap_sources_def two_sources_def elements3_def at3_def upt_0_2)
  have zero: "pit_mse_loss two_sources two_sources = Inr (Fin 0)"
    and swapped: "pit_mse_loss (swap_sources two_sources) two_sources = Inr (Fin 0)"
    using pit_mse_loss_min [OF wf wf sh sh] fin by blast+
  show ?thesis
    using wf sh dt sw zero swapped by simp
qed

subsection \<open>softmax_cross_entropy\<close>

text \<open>
  Indexing into the tensor whose last axis was moved to position 1 reads the element of
  the original tensor with the two index groups exchanged.
\<close>

lemma length_concat_map_upt:
  "(\<And>i. i < n \<Longrightarrow> length (g i) = m) \<Longrightarrow> length (concat (map g [0..<n])) = n * m"
  by (induction n) simp_all

lemma nth_concat_map_upt:
  "(\<And>i. i < n \<Longrightarrow> length (g i) = m) \<Longrightarrow> i < n \<Longrightarrow> j < m \<Longrightarrow>
   concat (map g [0..<n]) ! (i * m + j) = g i ! j"
proof (induction n)
  case 0
  then show ?case by simp
next
  case (Suc n)
  have len: "length (concat (map g [0..<n])) = n * m"
    using Suc.prems(1) by (intro length_concat_map_upt) simp
  show ?case
  proof (cases "i < n")
    case True
    then have "i * m + j < n * m"
      using Suc.prems(3)
      by (metis Suc_leI add.commute mult_Suc mult_le_mono1 nat_add_left_cancel_less
          less_le_trans)
    then show ?thesis
      using Suc True len by (simp add: nth_append)
  next
    case False
    then have "i = n" using Suc.prems(2) by simp
    then show ?thesis
      using len by (simp add: nth_append)
  qed
qed

lemma collect_map_Inr:
  "(\<And>x. x \<in> set xs \<Longrightarrow> f x = Inr (g x)) \<Longrightarrow> collect (map f xs) = Inr (map g xs)"
  by (induction xs) simp_all

lemma mean_of_kept_map:
  "mean_of_kept (map (\<lambda>p. if ign p then None else Some (v p)) ps)
     = np_mean (map v (filter (\<lambda>p. \<not> ign p) ps))"
proof -
  have "List.map_filter id (map (\<lambda>p. if ign p then None else Some (v p)) ps)
      = map v (filter (\<lambda>p. \<not> ign p) ps)"
    by (induction ps) (simp_all add: List.map_filter_simps)
  then show ?thesis
    by (simp add: mean_of_kept_def np_mean_def)
qed

lemma moved_nth:
  assumes "n < N" and "k < K" and "j < M"
  shows "concat (map (\<lambda>n. concat (map (\<lambda>k. map (\<lambda>j. f n j k) [0..<M]) [0..<K])) [0..<N])
           ! ((n * K + k) * M + j) = f n j k"
proof -
  let ?G = "\<lambda>n. concat (map (\<lambda>k. map (\<lambda>j. f n j k) [0..<M]) [0..<K])"
  have lenG: "length (?G i) = K * M" for i
    by (rule length_concat_map_upt) simp
  have "k * M + j < K * M"
    using assms(2,3)
    by (metis Suc_leI add.commute mult_Suc mult_le_mono1 nat_add_left_cancel_less less_le_trans)
  then have "concat (map ?G [0..<N]) ! (n * (K * M) + (k * M + j)) = ?G n ! (k * M + j)"
    using assms(1) lenG by (intro nth_concat_map_upt) simp_all
  also have "?G n ! (k * M + j) = map (\<lambda>j. f n j k) [0..<M] ! j"
    using assms(2,3) by (intro nth_concat_map_upt) simp_all
  also have "\<dots> = f n j k"
    using assms(3) by simp
  finally show ?thesis
    by (simp add: algebra_simps)
qed

lemma position_logits:
  assumes len: "length xs = N * M * K" and p: "p < N * M"
  shows "map (\<lambda>k. concat (map (\<lambda>n. concat (map (\<lambda>k. map (\<lambda>j. xs ! ((n * M + j) * K + k)) [0..<M])
                     [0..<K])) [0..<N]) ! (((p div M) * K + k) * M + p mod M)) [0..<K]
       = take K (drop (p * K) xs)"
proof -
  have M: "0 < M" using p by (cases M) simp_all
  have dv: "p div M < N"
    using p M by (simp add: less_mult_imp_div_less)
  have md: "p mod M < M" using M by simp
  have "(p + 1) * K \<le> N * M * K"
    using p by (intro mult_le_mono1) simp
  then have le: "p * K + K \<le> length xs"
    using len by (simp add: algebra_simps)
  have "map (\<lambda>k. concat (map (\<lambda>n. concat (map (\<lambda>k. map (\<lambda>j. xs ! ((n * M + j) * K + k)) [0..<M])
                     [0..<K])) [0..<N]) ! (((p div M) * K + k) * M + p mod M)) [0..<K]
      = map (\<lambda>k. xs ! (((p div M) * M + p mod M) * K + k)) [0..<K]"
    by (rule map_cong [OF refl]) (simp add: moved_nth [OF dv _ md])
  also have "\<dots> = map (\<lambda>k. xs ! (p * K + k)) [0..<K]"
    by simp
  also have "\<dots> = take K (drop (p * K) xs)"
    using le by (simp add: take_drop_nth)
  finally show ?thesis .
qed


lemma cross_entropy_batched:
  assumes wfx: "wf_tensor x" and wft: "wf_tensor t"
    and shx: "shape x = N # r # rs" and sh: "butlast (shape x) = shape t"
    and cls: "\<forall>c \<in> set (data t). c = - 1 \<or> (0 \<le> c \<and> c < int (last (shape x)))"
  shows "cross_entropy_of_tensors x t = Inr (softmax_cross_entropy_spec x t)"
proof -
  define K where "K = last (r # rs)"
  define mid where "mid = butlast (r # rs)"
  define M where "M = prod_list mid"
  have rest: "r # rs = mid @ [K]"
    unfolding K_def mid_def by (simp del: butlast.simps last.simps)
  have sht: "shape t = N # mid"
    using sh shx by (simp add: mid_def)
  have lent: "length (data t) = N * M"
    using wft sht by (simp add: wf_tensor_def M_def)
  have "prod_list (shape x) = N * (M * K)"
    unfolding shx rest by (simp add: M_def)
  then have lenx: "length (data x) = N * M * K"
    using wfx by (simp add: wf_tensor_def)
  have lastx: "last (shape x) = K"
    by (simp add: shx K_def)
  define D where "D = concat (map (\<lambda>n. concat (map (\<lambda>k.
      map (\<lambda>j. data x ! ((n * M + j) * K + k)) [0..<M]) [0..<K])) [0..<N])"
  define moved where "moved = \<lparr>shape = N # K # mid, data = D\<rparr>"
  have mv: "move_axis_last_to_1 x = Inr moved"
    by (simp add: move_axis_last_to_1_def shx moved_def D_def K_def mid_def M_def Let_def)
  have pos: "position_loss IGNORE_INDEX moved t p
      = Inr (if data t ! p = - 1 then None else Some (cross_entropy_at x t p))"
    if "p \<in> set [0..<N * M]" for p
  proof -
    have p: "p < N * M" using that by simp
    then have "data t ! p \<in> set (data t)"
      using lent by simp
    then have range: "data t ! p = - 1 \<or> (0 \<le> data t ! p \<and> data t ! p < int K)"
      using cls lastx by auto
    have "map (\<lambda>k. D ! (((p div M) * K + k) * M + p mod M)) [0..<K] = logits_at x p"
      unfolding D_def logits_at_def lastx by (rule position_logits [OF lenx p])
    then show ?thesis
      using range
      by (auto simp: position_loss_def IGNORE_INDEX_def moved_def M_def cross_entropy_at_def)
  qed
  have "collect (map (position_loss IGNORE_INDEX moved t) [0..<N * M])
      = Inr (map (\<lambda>p. if data t ! p = - 1 then None else Some (cross_entropy_at x t p)) [0..<N * M])"
    by (rule collect_map_Inr) (rule pos)
  then have "CrossEntropyLoss IGNORE_INDEX moved t
      = Inr (mean_of_kept (map (\<lambda>p. if data t ! p = - 1 then None
                                        else Some (cross_entropy_at x t p)) [0..<N * M]))"
    by (simp add: CrossEntropyLoss_def cross_entropy_positions_def moved_def sht M_def)
  also have "\<dots> = Inr (softmax_cross_entropy_spec x t)"
    by (simp add: mean_of_kept_map softmax_cross_entropy_spec_def lent)
  finally show ?thesis
    using sh by (simp add: cross_entropy_of_tensors_def mv)
qed

lemma cross_entropy_single:
  assumes wfx: "wf_tensor x" and wft: "wf_tensor t"
    and shx: "shape x = [K]" and sh: "butlast (shape x) = shape t"
    and cls: "\<forall>c \<in> set (data t). c = - 1 \<or> (0 \<le> c \<and> c < int (last (shape x)))"
  shows "cross_entropy_of_tensors x t = Inr (softmax_cross_entropy_spec x t)"
proof -
  have sht: "shape t = []"
    using sh shx by simp
  have lent: "length (data t) = 1"
    using wft sht by (simp add: wf_tensor_def)
  have lenx: "length (data x) = K"
    using wfx shx by (simp add: wf_tensor_def)
  have "data t ! 0 \<in> set (data t)"
    using lent by simp
  then have range: "data t ! 0 = - 1 \<or> (0 \<le> data t ! 0 \<and> data t ! 0 < int K)"
    using cls shx by auto
  have logits: "map (\<lambda>k. data x ! k) [0..<K] = logits_at x 0"
    using lenx map_nth [of "data x"] by (simp add: logits_at_def shx)
  have pos: "position_loss IGNORE_INDEX \<lparr>shape = [1, K], data = data x\<rparr> t 0
      = Inr (if data t ! 0 = - 1 then None else Some (cross_entropy_at x t 0))"
    using range logits
    by (auto simp: position_loss_def IGNORE_INDEX_def cross_entropy_at_def)
  have "CrossEntropyLoss IGNORE_INDEX x t
      = Inr (mean_of_kept (map (\<lambda>p. if data t ! p = - 1 then None
                                        else Some (cross_entropy_at x t p)) [0..<1]))"
    using pos by (simp add: CrossEntropyLoss_def cross_entropy_positions_def shx sht)
  also have "\<dots> = Inr (softmax_cross_entropy_spec x t)"
    by (simp only: mean_of_kept_map softmax_cross_entropy_spec_def lent)
  finally show ?thesis
    using sh by (simp add: cross_entropy_of_tensors_def move_axis_last_to_1_def shx)
qed

text \<open>
  C7. For a well-formed logits tensor x of shape (.., K) and a well-formed target tensor t
  of the shape of x without its last axis, whose entries are the ignore index -1 or
  classes in [0, K), \<open>softmax_cross_entropy\<close> is the mean of the cross-entropies of the
  positions whose target is not -1 (not a number when every position is ignored).
\<close>

theorem softmax_cross_entropy_ignores:
  assumes "wf_tensor x" and "wf_tensor t"
    and "shape x \<noteq> []" and "butlast (shape x) = shape t"
    and "\<forall>c \<in> set (data t). c = - 1 \<or> (0 \<le> c \<and> c < int (last (shape x)))"
  shows "softmax_cross_entropy (Tensor x) (Tensor t) = Inr (softmax_cross_entropy_spec x t)"
proof (cases "shape x")
  case Nil
  with assms(3) show ?thesis by simp
next
  case (Cons N rest)
  show ?thesis
  proof (cases rest)
    case Nil
    with Cons assms show ?thesis
      by (simp add: cross_entropy_single)
  next
    case (Cons r rs)
    with \<open>shape x = N # rest\<close> assms show ?thesis
      by (simp add: cross_entropy_batched)
  qed
qed


theorem softmax_cross_entropy_ignores_witness:
  "wf_tensor ce_x \<and> wf_tensor ce_t \<and> shape ce_x \<noteq> [] \<and> butlast (shape ce_x) = shape ce_t
   \<and> data ce_t = [1, - 1] \<and> data ce_t_counted = [1, 0] \<and> last (shape ce_x) = 2
   \<and> softmax_cross_entropy (Tensor ce_x) (Tensor ce_t) = Inr (Fin (ln 2))
   \<and> softmax_cross_entropy (Tensor ce_x) (Tensor ce_t_counted) = Inr (Fin ((ln 2 + ln 4) / 2))
   \<and> ln 2 \<noteq> (ln 2 + ln 4) / (2 :: real)
   \<and> shape ce_single_x = [2] \<and> shape ce_single_t = []
   \<and> softmax_cross_entropy (Tensor ce_single_x) (Tensor ce_single_t) = Inr (Fin (ln 2))"
proof -
  have wf: "wf_tensor ce_x" "wf_tensor ce_t" "wf_tensor ce_t_counted"
      "wf_tensor ce_single_x" "wf_tensor ce_single_t"
    by (simp_all add: wf_tensor_def ce_x_def ce_t_def ce_t_counted_def ce_single_x_def
        ce_single_t_def)
  have sh: "shape ce_x \<noteq> []" "butlast (shape ce_x) = shape ce_t"
      "butlast (shape ce_x) = shape ce_t_counted"
      "shape ce_single_x \<noteq> []" "butlast (shape ce_single_x) = shape ce_single_t"
    by (simp_all add: ce_x_def ce_t_def ce_t_counted_def ce_single_x_def ce_single_t_def)
  have cls: "\<forall>c \<in> set (data ce_t). c = - 1 \<or> (0 \<le> c \<and> c < int (last (shape ce_x)))"
      "\<forall>c \<in> set (data ce_t_counted). c = - 1 \<or> (0 \<le> c \<and> c < int (last (shape ce_x)))"
      "\<forall>c \<in> set (data ce_single_t). c = - 1 \<or> (0 \<le> c \<and> c < int (last (shape ce_single_x)))"
    by (simp_all add: ce_x_def ce_t_def ce_t_counted_def ce_single_x_def ce_single_t_def)
  have ignored: "softmax_cross_entropy_spec ce_x ce_t = Fin (ln 2)"
    by (simp add: softmax_cross_entropy_spec_def ce_x_def ce_t_def cross_entropy_at_def
        logits_at_def log_softmax_def np_mean_def upt_0_2)
  have counted: "softmax_cross_entropy_spec ce_x ce_t_counted = Fin ((ln 2 + ln 4) / 2)"
    by (simp add: softmax_cross_entropy_spec_def ce_x_def ce_t_counted_def cross_entropy_at_def
        logits_at_def log_softmax_def np_mean_def upt_0_2)
  have single: "softmax_cross_entropy_spec ce_single_x ce_single_t = Fin (ln 2)"
    by (simp add: softmax_cross_entropy_spec_def ce_single_x_def ce_single_t_def
        cross_entropy_at_def logits_at_def log_softmax_def np_mean_def)
  have "ln (4 :: real) = ln 2 + ln 2"
    using ln_mult [of "2 :: real" 2] by simp
  moreover have "0 < ln (2 :: real)"
    by simp
  ultimately have differ: "ln 2 \<noteq> (ln 2 + ln 4) / (2 :: real)"
    by simp
  have r1: "softmax_cross_entropy (Tensor ce_x) (Tensor ce_t) = Inr (Fin (ln 2))"
    using softmax_cross_entropy_ignores [OF wf(1) wf(2) sh(1) sh(2) cls(1)] ignored by simp
  have r2: "softmax_cross_entropy (Tensor ce_x) (Tensor ce_t_counted) = Inr (Fin ((ln 2 + ln 4) / 2))"
    using softmax_cross_entropy_ignores [OF wf(1) wf(3) sh(1) sh(3) cls(2)] counted by simp
  have r3: "softmax_cross_entropy (Tensor ce_single_x) (Tensor ce_single_t) = Inr (Fin (ln 2))"
    using softmax_cross_entropy_ignores [OF wf(4) wf(5) sh(4) sh(5) cls(3)] single by simp
  show ?thesis
    using wf sh differ r1 r2 r3
    by (simp add: ce_x_def ce_t_def ce_t_counted_def ce_single_x_def ce_single_t_def)
qed

end
